theory Spec2Isabelle
  imports Main "HOL-Library.Sublist" "HOL-Library.AList"
begin

section \<open>Exdir: object directories, root discovery, raw directories and datasets\<close>

text \<open>
  A shallow embedding of \<^verbatim>\<open>exdir/core/exdir_object.py\<close> and
  \<^verbatim>\<open>exdir/core/dataset.py\<close>. Python exceptions are values of the type
  \<open>error\<close>; a function that can raise returns \<open>error + 'a\<close> with \<open>Inl\<close> for the
  exception. The operating system, the YAML codec and numpy are libraries the source calls;
  the part of their behaviour the source depends on is written out below.
\<close>

subsection \<open>Paths and exceptions\<close>

text \<open>
  A path is the list of the components of an absolute, normalised POSIX path: \<open>[]\<close> is the
  filesystem root \<^verbatim>\<open>/\<close>, and \<open>[''a'', ''b'']\<close> is \<^verbatim>\<open>/a/b\<close>. A relative name (an object
  name, a parent path) is the list of its components, the empty name \<^verbatim>\<open>""\<close> being \<open>[]\<close>.
  On such paths \<^verbatim>\<open>os.path.join\<close> appends, \<^verbatim>\<open>os.path.dirname\<close> drops the last component
  (and leaves the root alone) and \<^verbatim>\<open>os.path.abspath\<close> changes nothing.
\<close>

type_synonym path = "string list"

definition path_join :: "path \<Rightarrow> path \<Rightarrow> path" where
  "path_join a b = a @ b"

definition path_dirname :: "path \<Rightarrow> path" where
  "path_dirname p = butlast p"

definition path_abspath :: "path \<Rightarrow> path" where
  "path_abspath p = p"

datatype error =
    IOError_already_exists path
  | ValueError_typename string
  | FileExistsError_raw path
  | FileExistsError_not_raw path
  | InvalidName path
  | IOError_read_only
  | PluginNotEnabled string string
  | TypeError_len_of_scalar
  | TypeError_iterate_scalar
  | FileExistsError path
  | FileNotFoundError path
  | NotADirectoryError path
  | IsADirectoryError path
  | YAMLError
  | TypeError
  | KeyError
  | IndexError
  | ValueError
  | AttributeError

text \<open>
  The first nine constructors are the exceptions the source raises itself, named after the
  Python class and the raise site: \<open>IOError_already_exists\<close> in
  \<^verbatim>\<open>_create_object_directory\<close>, \<open>ValueError_typename\<close> likewise,
  \<open>FileExistsError_raw\<close> in \<^verbatim>\<open>create_raw\<close>, \<open>FileExistsError_not_raw\<close> in
  \<^verbatim>\<open>require_raw\<close>, \<open>InvalidName\<close> for whatever the name validator raises,
  \<open>IOError_read_only\<close> in \<^verbatim>\<open>Dataset.__setitem__\<close>, \<open>PluginNotEnabled plugin dataset\<close>
  in \<^verbatim>\<open>Dataset.__getitem__\<close>, and the two \<^verbatim>\<open>TypeError\<close>s of \<^verbatim>\<open>__len__\<close> and
  \<^verbatim>\<open>__iter__\<close>. The others are raised by the libraries.
\<close>

subsection \<open>YAML documents and the Python operators applied to them\<close>

datatype yaml =
    YNull
  | YBool bool
  | YInt int
  | YStr string
  | YSeq "yaml list"
  | YMap "(yaml \<times> yaml) list"

text \<open>
  \<open>YMap\<close> holds the items of a Python \<^verbatim>\<open>dict\<close>; a key is looked up with \<open>map_of\<close>.
  A file holds either text the YAML loader rejects, or the document the loader returns
  for it (an empty file loads as \<open>YNull\<close>).
\<close>

datatype contents = Unparsable | Document yaml

definition safe_load :: "contents \<Rightarrow> error + yaml" where
  "safe_load c = (case c of Unparsable \<Rightarrow> Inl YAMLError | Document y \<Rightarrow> Inr y)"






definition isinstance_dict :: "yaml \<Rightarrow> bool" where
  "isinstance_dict y = (case y of YMap _ \<Rightarrow> True | _ \<Rightarrow> False)"

definition is_substring :: "string \<Rightarrow> string \<Rightarrow> bool" where
  "is_substring k s = list_ex (\<lambda>i. take (length k) (drop i s) = k) [0..<Suc (length s)]"

text \<open>
  \<^verbatim>\<open>k in y\<close> for a string \<open>k\<close>: key membership in a dict, element membership in a list,
  substring test in a string, and \<^verbatim>\<open>TypeError\<close> on \<^verbatim>\<open>None\<close>, a bool or a number.
\<close>

definition py_in :: "string \<Rightarrow> yaml \<Rightarrow> error + bool" where
  "py_in k y =
     (case y of
        YMap kvs \<Rightarrow> Inr (YStr k \<in> set (map fst kvs))
      | YSeq xs \<Rightarrow> Inr (YStr k \<in> set xs)
      | YStr s \<Rightarrow> Inr (is_substring k s)
      | _ \<Rightarrow> Inl TypeError)"

text \<open>
  \<^verbatim>\<open>y[k]\<close> for a string \<open>k\<close>: \<^verbatim>\<open>KeyError\<close> on a dict without the key, and
  \<^verbatim>\<open>TypeError\<close> on everything that is not a dict.
\<close>

definition py_getitem :: "yaml \<Rightarrow> string \<Rightarrow> error + yaml" where
  "py_getitem y k =
     (case y of
        YMap kvs \<Rightarrow> (case map_of kvs (YStr k) of None \<Rightarrow> Inl KeyError | Some v \<Rightarrow> Inr v)
      | _ \<Rightarrow> Inl TypeError)"

subsection \<open>The filesystem\<close>

datatype node = Dir | File contents

type_synonym filesystem = "path \<Rightarrow> node option"

definition path_exists :: "filesystem \<Rightarrow> path \<Rightarrow> bool" where
  "path_exists fs p = (fs p \<noteq> None)"

definition path_isdir :: "filesystem \<Rightarrow> path \<Rightarrow> bool" where
  "path_isdir fs p = (fs p = Some Dir)"

text \<open>In a filesystem every entry but the root lies in a directory.\<close>

definition wf_fs :: "filesystem \<Rightarrow> bool" where
  "wf_fs fs = (\<forall>p. p \<noteq> [] \<longrightarrow> fs p \<noteq> None \<longrightarrow> fs (butlast p) = Some Dir)"

definition os_mkdir :: "filesystem \<Rightarrow> path \<Rightarrow> error + filesystem" where
  "os_mkdir fs p =
     (if fs p \<noteq> None then Inl (FileExistsError p)
      else
       (case fs (path_dirname p) of
          None \<Rightarrow> Inl (FileNotFoundError p)
        | Some (File _) \<Rightarrow> Inl (NotADirectoryError p)
        | Some Dir \<Rightarrow> Inr (fs(p \<mapsto> Dir))))"

definition open_read :: "filesystem \<Rightarrow> path \<Rightarrow> error + contents" where
  "open_read fs p =
     (case fs p of
        None \<Rightarrow> Inl (FileNotFoundError p)
      | Some Dir \<Rightarrow> Inl (IsADirectoryError p)
      | Some (File c) \<Rightarrow> Inr c)"

text \<open>\<^verbatim>\<open>open(p, "w")\<close> followed by dumping a document into the file.\<close>

definition open_write :: "filesystem \<Rightarrow> path \<Rightarrow> contents \<Rightarrow> error + filesystem" where
  "open_write fs p c =
     (case fs p of
        Some Dir \<Rightarrow> Inl (IsADirectoryError p)
      | _ \<Rightarrow> (case fs (path_dirname p) of
                None \<Rightarrow> Inl (FileNotFoundError p)
              | Some (File _) \<Rightarrow> Inl (NotADirectoryError p)
              | Some Dir \<Rightarrow> Inr (fs(p \<mapsto> File c))))"

subsection \<open>Object directories (\<^verbatim>\<open>exdir_object.py\<close>)\<close>

definition EXDIR_METANAME :: string where "EXDIR_METANAME = ''exdir''"
definition TYPE_METANAME :: string where "TYPE_METANAME = ''type''"
definition VERSION_METANAME :: string where "VERSION_METANAME = ''version''"
definition META_FILENAME :: string where "META_FILENAME = ''exdir.yaml''"
definition DATASET_TYPENAME :: string where "DATASET_TYPENAME = ''dataset''"
definition GROUP_TYPENAME :: string where "GROUP_TYPENAME = ''group''"
definition FILE_TYPENAME :: string where "FILE_TYPENAME = ''file''"

definition valid_types :: "string list" where
  "valid_types = [DATASET_TYPENAME, FILE_TYPENAME, GROUP_TYPENAME]"

definition metafile_from_directory :: "path \<Rightarrow> path" where
  "metafile_from_directory directory = path_join directory [META_FILENAME]"

definition new_metadata :: "string \<Rightarrow> yaml" where
  "new_metadata typename =
     YMap [(YStr EXDIR_METANAME,
            YMap [(YStr TYPE_METANAME, YStr typename), (YStr VERSION_METANAME, YInt 1)])]"

definition create_object_directory :: "filesystem \<Rightarrow> path \<Rightarrow> string \<Rightarrow> error + filesystem" where
  "create_object_directory fs directory typename =
     (if path_exists fs directory then Inl (IOError_already_exists directory)
      else if typename \<notin> set valid_types then Inl (ValueError_typename typename)
      else
       (case os_mkdir fs directory of
          Inl e \<Rightarrow> Inl e
        | Inr fs1 \<Rightarrow>
            open_write fs1 (metafile_from_directory directory)
              (Document (new_metadata typename))))"

definition is_exdir_object :: "filesystem \<Rightarrow> path \<Rightarrow> bool" where
  "is_exdir_object fs directory = path_isdir fs directory"

definition is_nonraw_object_directory :: "filesystem \<Rightarrow> path \<Rightarrow> error + bool" where
  "is_nonraw_object_directory fs directory =
     (let meta_filename = path_join directory [META_FILENAME] in
      if \<not> path_exists fs meta_filename then Inr False
      else
       (case open_read fs meta_filename of
          Inl e \<Rightarrow> Inl e
        | Inr meta_file \<Rightarrow>
       (case safe_load meta_file of
          Inl e \<Rightarrow> Inl e
        | Inr meta_data \<Rightarrow>
            if \<not> isinstance_dict meta_data then Inr False
            else
             (case py_in EXDIR_METANAME meta_data of
                Inl e \<Rightarrow> Inl e
              | Inr has_exdir \<Rightarrow>
                  if \<not> has_exdir then Inr False
                  else
                   (case py_getitem meta_data EXDIR_METANAME of
                      Inl e \<Rightarrow> Inl e
                    | Inr exdir_meta \<Rightarrow>
                   (case py_in TYPE_METANAME exdir_meta of
                      Inl e \<Rightarrow> Inl e
                    | Inr has_type \<Rightarrow>
                        if \<not> has_type then Inr False
                        else
                         (case py_getitem exdir_meta TYPE_METANAME of
                            Inl e \<Rightarrow> Inl e
                          | Inr t \<Rightarrow>
                              if t \<notin> set (map YStr valid_types) then Inr False
                              else Inr True)))))))"

text \<open>Python's \<^verbatim>\<open>and\<close> does not evaluate its second operand when the first is false.\<close>

definition is_raw_object_directory :: "filesystem \<Rightarrow> path \<Rightarrow> error + bool" where
  "is_raw_object_directory fs directory =
     (if is_exdir_object fs directory
      then (case is_nonraw_object_directory fs directory of
              Inl e \<Rightarrow> Inl e
            | Inr b \<Rightarrow> Inr (\<not> b))
      else Inr False)"





subsection \<open>Objects and raw directories\<close>

datatype OpenMode = READ_WRITE | READ_ONLY

text \<open>
  The fields of \<^verbatim>\<open>Object\<close>. The field \<^verbatim>\<open>root_directory\<close> is \<open>root_dir\<close> here, the name
  \<open>root_directory\<close> being the function above. The name validators live in the module
  \<^verbatim>\<open>filename_validation\<close>, which is not among the sources: a validator is a field of the
  object, a function of the filesystem, the container's directory and the name that returns
  the exception it raises, if any.
\<close>

record Object =
  root_dir :: path
  parent_path :: path
  object_name :: path
  io_mode :: "OpenMode option"
  validate_name :: "filesystem \<Rightarrow> path \<Rightarrow> path \<Rightarrow> error option"

definition relative_path :: "'a Object_scheme \<Rightarrow> path" where
  "relative_path obj = path_join (parent_path obj) (object_name obj)"

definition directory :: "'a Object_scheme \<Rightarrow> path" where
  "directory obj = path_join (root_dir obj) (relative_path obj)"

text \<open>
  Modelled from the spec: the class \<^verbatim>\<open>Raw\<close> of the module \<^verbatim>\<open>raw\<close>, which is not among
  the sources. The spec makes \<^verbatim>\<open>Raw\<close> a variant of \<^verbatim>\<open>Object\<close>, identified by root
  directory, parent path and object name: a raw handle is the arguments its constructor is
  called with, and its directory is derived from them as \<^verbatim>\<open>Object.directory\<close> is.
\<close>

record Raw =
  raw_root_dir :: path
  raw_parent_path :: path
  raw_object_name :: path
  raw_io_mode :: "OpenMode option"

definition raw_directory :: "Raw \<Rightarrow> path" where
  "raw_directory r = path_join (raw_root_dir r) (path_join (raw_parent_path r) (raw_object_name r))"

definition assert_valid_name ::
  "filesystem \<Rightarrow> path \<Rightarrow> 'a Object_scheme \<Rightarrow> error option" where
  "assert_valid_name fs name container = validate_name container fs (directory container) name"

definition create_raw ::
  "filesystem \<Rightarrow> 'a Object_scheme \<Rightarrow> path \<Rightarrow> error + (Raw \<times> filesystem)" where
  "create_raw fs self name =
     (case assert_valid_name fs name self of
        Some e \<Rightarrow> Inl e
      | None \<Rightarrow>
          (let directory_name = path_join (directory self) name in
           if path_exists fs directory_name then Inl (FileExistsError_raw directory_name)
           else
            (case os_mkdir fs directory_name of
               Inl e \<Rightarrow> Inl e
             | Inr fs1 \<Rightarrow>
                 Inr (\<lparr>raw_root_dir = root_dir self,
                       raw_parent_path = parent_path self,
                       raw_object_name = name,
                       raw_io_mode = io_mode self\<rparr>, fs1))))"

text \<open>
  \<^verbatim>\<open>require_raw\<close> returns the string \<^verbatim>\<open>directory_name\<close> on one path and what
  \<^verbatim>\<open>create_raw\<close> returns on the other.
\<close>

datatype raw_result = DirectoryName path | RawHandle Raw

definition require_raw ::
  "filesystem \<Rightarrow> 'a Object_scheme \<Rightarrow> path \<Rightarrow> error + (raw_result \<times> filesystem)" where
  "require_raw fs self name =
     (let directory_name = path_join (directory self) name in
      if path_exists fs directory_name
      then
       (case is_nonraw_object_directory fs directory_name of
          Inl e \<Rightarrow> Inl e
        | Inr nonraw \<Rightarrow>
            if nonraw then Inl (FileExistsError_not_raw directory_name)
            else Inr (DirectoryName directory_name, fs))
      else
       (case create_raw fs self name of
          Inl e \<Rightarrow> Inl e
        | Inr (r, fs1) \<Rightarrow> Inr (RawHandle r, fs1)))"


subsection \<open>Reference notions for the object-directory properties\<close>

text \<open>
  The type recorded by a syntactically valid metadata record of a directory: the file
  \<^verbatim>\<open>exdir.yaml\<close> holds a mapping whose entry \<^verbatim>\<open>exdir\<close> is a mapping with an entry
  \<^verbatim>\<open>type\<close>. A directory has valid metadata when that type is one of the three typenames.
\<close>

definition metadata_type :: "filesystem \<Rightarrow> path \<Rightarrow> yaml option" where
  "metadata_type fs d =
     (case fs (d @ [META_FILENAME]) of
        Some (File (Document (YMap kvs))) \<Rightarrow>
          (case map_of kvs (YStr EXDIR_METANAME) of
             Some (YMap ekvs) \<Rightarrow> map_of ekvs (YStr TYPE_METANAME)
           | _ \<Rightarrow> None)
      | _ \<Rightarrow> None)"

definition has_valid_metadata :: "filesystem \<Rightarrow> path \<Rightarrow> bool" where
  "has_valid_metadata fs d =
     (metadata_type fs d \<in> {Some (YStr ''dataset''), Some (YStr ''group''), Some (YStr ''file'')})"

text \<open>Example filesystems: a plain directory \<^verbatim>\<open>/d\<close>, and \<^verbatim>\<open>/d\<close> with a metadata file.\<close>

definition fs_plain :: filesystem where
  "fs_plain = [[] \<mapsto> Dir, [''d''] \<mapsto> Dir]"

definition fs_with :: "contents \<Rightarrow> filesystem" where
  "fs_with c = [[] \<mapsto> Dir, [''d''] \<mapsto> Dir, [''d'', ''exdir.yaml''] \<mapsto> File c]"


text \<open>
  Example filesystems: a store \<^verbatim>\<open>/r\<close> holding a group \<^verbatim>\<open>/r/g\<close> with a plain directory
  \<^verbatim>\<open>/r/g/x\<close>; a filesystem whose root directory is itself a store; and a store whose
  group has a metadata file the loader rejects.
\<close>

definition fs_store :: filesystem where
  "fs_store =
     [[] \<mapsto> Dir,
      [''r''] \<mapsto> Dir,
      [''r'', ''exdir.yaml''] \<mapsto> File (Document (new_metadata ''file'')),
      [''r'', ''g''] \<mapsto> Dir,
      [''r'', ''g'', ''exdir.yaml''] \<mapsto> File (Document (new_metadata ''group'')),
      [''r'', ''g'', ''x''] \<mapsto> Dir]"



text \<open>The group \<^verbatim>\<open>/r/g\<close> as an object of the store \<^verbatim>\<open>/r\<close>, with no name validation.\<close>

definition group_g :: Object where
  "group_g =
     \<lparr>root_dir = [''r''], parent_path = [], object_name = [''g''], io_mode = None,
      validate_name = (\<lambda>fs container name. None)\<rparr>"

subsection \<open>Arrays (numpy)\<close>

text \<open>
  An array is its shape and its elements in row-major order. A Python value handed to a
  dataset is a number, a string, a tuple, a list or an array. Element types (dtypes) are
  not modelled: where numpy converts a value to the element type of an array, or refuses
  it for that type (a string assigned into an integer array, an integer out of range, the
  items of a mixed tuple, a one-element sequence assigned to a single element), the model
  stores the value as it is given. The properties below speak of shapes, of the elements
  a read selects, and of the files a write touches.
\<close>

datatype elem = Num int | Txt string

record ndarray =
  shape :: "nat list"
  elems :: "elem list"

datatype pyval =
    PNumber int
  | PStr string
  | PTuple "pyval list"
  | PList "pyval list"
  | PArray ndarray

text \<open>
  \<^verbatim>\<open>np.asarray\<close>: a number or a string becomes a zero-dimensional array; a tuple or a list
  becomes the stack of its converted items, which must agree in shape.
\<close>

definition stack :: "(error + ndarray) list \<Rightarrow> error + ndarray" where
  "stack rs =
     (if list_ex isl rs then Inl ValueError
      else
       (case map projr rs of
          [] \<Rightarrow> Inr \<lparr>shape = [0], elems = []\<rparr>
        | a # as \<Rightarrow>
            if list_all (\<lambda>b. shape b = shape a) as
            then Inr \<lparr>shape = Suc (length as) # shape a, elems = concat (map elems (a # as))\<rparr>
            else Inl ValueError))"

fun asarray :: "pyval \<Rightarrow> error + ndarray" where
  "asarray (PNumber n) = Inr \<lparr>shape = [], elems = [Num n]\<rparr>"
| "asarray (PStr s) = Inr \<lparr>shape = [], elems = [Txt s]\<rparr>"
| "asarray (PTuple vs) = stack (map asarray vs)"
| "asarray (PList vs) = stack (map asarray vs)"
| "asarray (PArray a) = Inr a"

text \<open>The attribute \<^verbatim>\<open>.shape\<close>, which only an array has.\<close>

definition shape_attr :: "pyval \<Rightarrow> error + nat list" where
  "shape_attr v = (case v of PArray a \<Rightarrow> Inr (shape a) | _ \<Rightarrow> Inl AttributeError)"

text \<open>
  The selectors modelled are the full slice \<^verbatim>\<open>[:]\<close> and a tuple of integers
  \<^verbatim>\<open>[i, j, ...]\<close> (a single integer is a tuple of one; a negative integer counts from the
  end). \<open>locate\<close> gives the offset and the shape of the block that integers select.
\<close>

datatype selector = FullSlice | Indices "int list"

fun locate :: "nat list \<Rightarrow> int list \<Rightarrow> error + (nat \<times> nat list)" where
  "locate sh [] = Inr (0, sh)"
| "locate [] (i # idx) = Inl IndexError"
| "locate (n # sh) (i # idx) =
     (let j = (if i < 0 then i + int n else i) in
      if j < 0 \<or> int n \<le> j then Inl IndexError
      else
       (case locate sh idx of
          Inl e \<Rightarrow> Inl e
        | Inr (off, s) \<Rightarrow> Inr (nat j * prod_list sh + off, s)))"

definition nd_getitem :: "ndarray \<Rightarrow> selector \<Rightarrow> error + ndarray" where
  "nd_getitem a sel =
     (case sel of
        FullSlice \<Rightarrow> if shape a = [] then Inl IndexError else Inr a
      | Indices idx \<Rightarrow>
          (case locate (shape a) idx of
             Inl e \<Rightarrow> Inl e
           | Inr (off, s) \<Rightarrow> Inr \<lparr>shape = s, elems = take (prod_list s) (drop off (elems a))\<rparr>))"

text \<open>
  Broadcasting a value to the shape of the block it is assigned to: leading axes of length
  one are dropped from a value of higher rank, missing leading axes are added, and along
  every axis the value has either the length of the block or length one.
\<close>

fun strip_ones :: "nat \<Rightarrow> nat list \<Rightarrow> nat list" where
  "strip_ones r (v # vs) = (if r < length (v # vs) \<and> v = 1 then strip_ones r vs else v # vs)"
| "strip_ones r [] = []"

fun bcast :: "nat list \<Rightarrow> nat list \<Rightarrow> elem list \<Rightarrow> elem list" where
  "bcast (t # ts) (v # vs) es =
     (if v = t
      then concat (map (\<lambda>k. bcast ts vs (take (prod_list vs) (drop (k * prod_list vs) es))) [0..<t])
      else concat (replicate t (bcast ts vs es)))"
| "bcast ts vs es = es"

definition broadcast_to :: "nat list \<Rightarrow> ndarray \<Rightarrow> error + elem list" where
  "broadcast_to ts val =
     (let vs = strip_ones (length ts) (shape val) in
      if length ts < length vs then Inl ValueError
      else
       (let padded = replicate (length ts - length vs) 1 @ vs in
        if list_all2 (\<lambda>t v. v = t \<or> v = 1) ts padded
        then Inr (bcast ts padded (elems val))
        else Inl ValueError))"

definition nd_setitem :: "ndarray \<Rightarrow> selector \<Rightarrow> pyval \<Rightarrow> error + ndarray" where
  "nd_setitem a sel v =
     (case (case sel of
              FullSlice \<Rightarrow> if shape a = [] then Inl IndexError else Inr (0, shape a)
            | Indices idx \<Rightarrow> locate (shape a) idx) of
        Inl e \<Rightarrow> Inl e
      | Inr (off, s) \<Rightarrow>
          (case asarray v of
             Inl e \<Rightarrow> Inl e
           | Inr val \<Rightarrow>
               (case broadcast_to s val of
                  Inl e \<Rightarrow> Inl e
                | Inr es \<Rightarrow>
                    Inr (a\<lparr>elems := take off (elems a) @ es @ drop (off + prod_list s) (elems a)\<rparr>))))"

subsection \<open>Plugins and the write pipeline (\<^verbatim>\<open>dataset.py\<close>)\<close>

text \<open>
  A Python \<^verbatim>\<open>dict\<close> with string keys is the list of its items in insertion order;
  \<^verbatim>\<open>d[k] = v\<close> is \<open>AList.update\<close>, which replaces the value of an existing key in place
  and appends a new key, and \<^verbatim>\<open>d.update(e)\<close> assigns the items of \<open>e\<close> in order.
\<close>

type_synonym 'v dict = "(string \<times> 'v) list"

definition dict_update :: "'v dict \<Rightarrow> 'v dict \<Rightarrow> 'v dict" where
  "dict_update d e = fold (\<lambda>(k, v). AList.update k v) e d"

text \<open>
  The registry \<^verbatim>\<open>exdir.core.plugin.dataset_plugins\<close> is not among the sources; it is the
  parameter \<open>plugins\<close> of every function below, an ordered list. A plugin has an identifier
  and the two hooks; the metadata a write hook returns carries the flag \<^verbatim>\<open>required\<close>
  beside its other entries.
\<close>

record plugin_meta =
  required :: bool
  details :: "pyval dict"

record plugin =
  IDENTIFIER :: string
  plugin_prepare_write :: "pyval \<Rightarrow> pyval \<times> pyval dict \<times> plugin_meta"
  plugin_prepare_read :: "pyval \<Rightarrow> pyval dict \<Rightarrow> pyval"

text \<open>The \<^verbatim>\<open>for\<close> loop of \<^verbatim>\<open>_prepare_write\<close>, with its three variables.\<close>

fun prepare_write_loop ::
  "plugin list \<Rightarrow> pyval \<Rightarrow> pyval dict \<Rightarrow> plugin_meta dict \<Rightarrow> pyval \<times> pyval dict \<times> plugin_meta dict" where
  "prepare_write_loop [] data attrs meta = (data, attrs, meta)"
| "prepare_write_loop (p # ps) data attrs meta =
     (case plugin_prepare_write p data of
        (data', plugin_attrs, plugin_meta) \<Rightarrow>
          prepare_write_loop ps data' (dict_update attrs plugin_attrs)
            (if required plugin_meta then AList.update (IDENTIFIER p) plugin_meta meta else meta))"

definition isinstance_number_tuple_str :: "pyval \<Rightarrow> bool" where
  "isinstance_number_tuple_str v =
     (case v of PNumber _ \<Rightarrow> True | PTuple _ \<Rightarrow> True | PStr _ \<Rightarrow> True | _ \<Rightarrow> False)"

definition prepare_write ::
  "plugin list \<Rightarrow> pyval \<Rightarrow> error + (pyval \<times> pyval dict \<times> plugin_meta dict)" where
  "prepare_write plugins data0 =
     (case prepare_write_loop plugins data0 [] [] of
        (data, attrs, meta) \<Rightarrow>
          if isinstance_number_tuple_str data
          then (case asarray data of
                  Inl e \<Rightarrow> Inl e
                | Inr a \<Rightarrow> Inr (PArray a, attrs, meta))
          else Inr (data, attrs, meta))"

subsection \<open>Datasets (\<^verbatim>\<open>dataset.py\<close>)\<close>

text \<open>
  A dataset handle together with the three files of its directory. \<open>data_memmap\<close> is the
  handle's field \<^verbatim>\<open>_data_memmap\<close>. \<open>data_file\<close> is the array stored in \<^verbatim>\<open>data.npy\<close>
  (\<open>None\<close> when the file is missing), and \<open>saves\<close> counts how often \<^verbatim>\<open>np.save\<close> has
  written that file from scratch. A mapping opened for writing is a view of the file:
  what is assigned through it is in the file.

  Modelled from the spec: the accessor class \<^verbatim>\<open>Attribute\<close> is not among the sources.
  \<open>attributes_file\<close> is the mapping stored in \<^verbatim>\<open>attributes.yaml\<close>, which
  \<^verbatim>\<open>self.attrs.update(attrs)\<close> merges into; \<open>meta_plugins\<close> is the entry \<^verbatim>\<open>plugins\<close> of
  the metadata file, which \<^verbatim>\<open>self.meta["plugins"] = meta\<close> replaces.
\<close>

record Dataset = Object +
  data_memmap :: "ndarray option"
  data_file :: "ndarray option"
  saves :: nat
  attributes_file :: "pyval dict"
  meta_plugins :: "plugin_meta dict"

fun path_string :: "path \<Rightarrow> string" where
  "path_string [] = []"
| "path_string [c] = c"
| "path_string (c # cs) = c @ ''/'' @ path_string cs"

text \<open>
  The attribute \<^verbatim>\<open>self.name\<close>, \<^verbatim>\<open>"/"\<close> followed by the string
  \<^verbatim>\<open>os.path.join(parent_path, object_name)\<close>, which ends in a separator when the object
  name is empty and the parent path is not.
\<close>

definition name :: "'a Object_scheme \<Rightarrow> string" where
  "name obj =
     ''/'' @
     (if object_name obj = []
      then (if parent_path obj = [] then [] else path_string (parent_path obj) @ ''/'')
      else path_string (relative_path obj))"

text \<open>
  The path of the payload file. The constructor of \<^verbatim>\<open>Dataset\<close> computes it by applying
  the operator \<^verbatim>\<open>/\<close> to the string \<^verbatim>\<open>self.directory\<close>, which raises
  \<^verbatim>\<open>TypeError\<close>; the constructor is not part of this model, whose datasets are handles
  that exist, and \<open>data_filename\<close> is the path the expression stands for.
\<close>

definition data_filename :: "'a Dataset_scheme \<Rightarrow> path" where
  "data_filename self = path_join (directory self) [''data.npy'']"

definition reload_data :: "Dataset \<Rightarrow> (error + unit) \<times> Dataset" where
  "reload_data self =
     (case data_file self of
        None \<Rightarrow> (Inl (FileNotFoundError (data_filename self)), self)
      | Some a \<Rightarrow> (Inr (), self\<lparr>data_memmap := Some a\<rparr>))"

text \<open>
  The property \<^verbatim>\<open>_data\<close>: the mapped array, mapped on first use. After
  \<^verbatim>\<open>_reload_data\<close> has returned the field holds an array, so the last branch is never
  taken.
\<close>

definition mapped_data :: "Dataset \<Rightarrow> (error + ndarray) \<times> Dataset" where
  "mapped_data self =
     (case data_memmap self of
        Some a \<Rightarrow> (Inr a, self)
      | None \<Rightarrow>
          (case reload_data self of
             (Inl e, self1) \<Rightarrow> (Inl e, self1)
           | (Inr u, self1) \<Rightarrow>
               (case data_memmap self1 of
                  Some a \<Rightarrow> (Inr a, self1)
                | None \<Rightarrow> (Inl AttributeError, self1))))"

text \<open>The first plugin name recorded in the metadata that is not enabled, if there is one.\<close>

definition first_missing :: "string list \<Rightarrow> string list \<Rightarrow> string option" where
  "first_missing enabled_plugins recorded = find (\<lambda>plugin_name. plugin_name \<notin> set enabled_plugins) recorded"

definition prepare_read_loop :: "plugin list \<Rightarrow> pyval \<Rightarrow> pyval dict \<Rightarrow> pyval" where
  "prepare_read_loop plugins values attrs =
     fold (\<lambda>p values. plugin_prepare_read p values attrs) plugins values"

definition getitem :: "plugin list \<Rightarrow> Dataset \<Rightarrow> selector \<Rightarrow> (error + pyval) \<times> Dataset" where
  "getitem plugins self args =
     (case mapped_data self of
        (Inl e, self1) \<Rightarrow> (Inl e, self1)
      | (Inr d, self1) \<Rightarrow>
          (case (if length (shape d) = 0 then Inr d else nd_getitem d args) of
             Inl e \<Rightarrow> (Inl e, self1)
           | Inr values \<Rightarrow>
               (let enabled_plugins = map IDENTIFIER plugins in
                case first_missing enabled_plugins (map fst (meta_plugins self1)) of
                  Some plugin_name \<Rightarrow> (Inl (PluginNotEnabled plugin_name (name self1)), self1)
                | None \<Rightarrow>
                    (Inr (prepare_read_loop plugins (PArray values) (attributes_file self1)),
                     self1))))"

definition setitem ::
  "plugin list \<Rightarrow> Dataset \<Rightarrow> selector \<Rightarrow> pyval \<Rightarrow> (error + unit) \<times> Dataset" where
  "setitem plugins self args value0 =
     (if io_mode self = Some READ_ONLY then (Inl IOError_read_only, self)
      else
       (case prepare_write plugins value0 of
          Inl e \<Rightarrow> (Inl e, self)
        | Inr (value, attrs, meta) \<Rightarrow>
            (let self1 = self\<lparr>attributes_file := dict_update (attributes_file self) attrs\<rparr>;
                 self2 = self1\<lparr>meta_plugins := meta\<rparr>
             in case mapped_data self2 of
                  (Inl e, self3) \<Rightarrow> (Inl e, self3)
                | (Inr d, self3) \<Rightarrow>
                    (case nd_setitem d args value of
                       Inl e \<Rightarrow> (Inl e, self3)
                     | Inr d' \<Rightarrow>
                         (Inr (), self3\<lparr>data_memmap := Some d', data_file := Some d'\<rparr>)))))"

text \<open>\<^verbatim>\<open>np.save\<close> converts what it is given to an array and writes the file anew.\<close>

definition np_save :: "Dataset \<Rightarrow> pyval \<Rightarrow> (error + unit) \<times> Dataset" where
  "np_save self value =
     (case asarray value of
        Inl e \<Rightarrow> (Inl e, self)
      | Inr a \<Rightarrow> (Inr (), self\<lparr>data_file := Some a, saves := Suc (saves self)\<rparr>))"

definition reset_data :: "plugin list \<Rightarrow> Dataset \<Rightarrow> pyval \<Rightarrow> (error + unit) \<times> Dataset" where
  "reset_data plugins self value0 =
     (case prepare_write plugins value0 of
        Inl e \<Rightarrow> (Inl e, self)
      | Inr (value, attrs, meta) \<Rightarrow>
          (case np_save self value of
             (Inl e, self1) \<Rightarrow> (Inl e, self1)
           | (Inr u, self1) \<Rightarrow>
               (let self2 = self1\<lparr>attributes_file := dict_update (attributes_file self1) attrs\<rparr>;
                    self3 = self2\<lparr>meta_plugins := meta\<rparr>
                in reload_data self3)))"

text \<open>The property \<^verbatim>\<open>shape\<close>, and the setter of the property \<^verbatim>\<open>value\<close>.\<close>

definition shape_property :: "plugin list \<Rightarrow> Dataset \<Rightarrow> (error + nat list) \<times> Dataset" where
  "shape_property plugins self =
     (case getitem plugins self FullSlice of
        (Inl e, self1) \<Rightarrow> (Inl e, self1)
      | (Inr values, self1) \<Rightarrow> (shape_attr values, self1))"

definition value_setter :: "plugin list \<Rightarrow> Dataset \<Rightarrow> pyval \<Rightarrow> (error + unit) \<times> Dataset" where
  "value_setter plugins self value =
     (case mapped_data self of
        (Inl e, self1) \<Rightarrow> (Inl e, self1)
      | (Inr d, self1) \<Rightarrow>
          (case shape_attr value of
             Inl e \<Rightarrow> (Inl e, self1)
           | Inr value_shape \<Rightarrow>
               if shape d \<noteq> value_shape then reset_data plugins self1 value
               else setitem plugins self1 FullSlice value))"

text \<open>
  \<^verbatim>\<open>__len__\<close> and \<^verbatim>\<open>__iter__\<close> read the property \<^verbatim>\<open>shape\<close> twice. The generator
  \<^verbatim>\<open>__iter__\<close> is the list of the values it yields and the exception that ends it, if
  one does.
\<close>

definition len_dataset :: "plugin list \<Rightarrow> Dataset \<Rightarrow> (error + nat) \<times> Dataset" where
  "len_dataset plugins self =
     (case shape_property plugins self of
        (Inl e, self1) \<Rightarrow> (Inl e, self1)
      | (Inr sh, self1) \<Rightarrow>
          if length sh = 0 then (Inl TypeError_len_of_scalar, self1)
          else
           (case shape_property plugins self1 of
              (Inl e, self2) \<Rightarrow> (Inl e, self2)
            | (Inr [], self2) \<Rightarrow> (Inl IndexError, self2)
            | (Inr (n # sh2), self2) \<Rightarrow> (Inr n, self2)))"

fun iter_reads ::
  "plugin list \<Rightarrow> Dataset \<Rightarrow> nat list \<Rightarrow> (pyval list \<times> error option) \<times> Dataset" where
  "iter_reads plugins self [] = (([], None), self)"
| "iter_reads plugins self (i # rest) =
     (case getitem plugins self (Indices [int i]) of
        (Inl e, self1) \<Rightarrow> (([], Some e), self1)
      | (Inr v, self1) \<Rightarrow>
          (case iter_reads plugins self1 rest of
             ((vs, e), self2) \<Rightarrow> ((v # vs, e), self2)))"

definition iter_dataset ::
  "plugin list \<Rightarrow> Dataset \<Rightarrow> (pyval list \<times> error option) \<times> Dataset" where
  "iter_dataset plugins self =
     (case shape_property plugins self of
        (Inl e, self1) \<Rightarrow> (([], Some e), self1)
      | (Inr sh, self1) \<Rightarrow>
          if length sh = 0 then (([], Some TypeError_iterate_scalar), self1)
          else
           (case shape_property plugins self1 of
              (Inl e, self2) \<Rightarrow> (([], Some e), self2)
            | (Inr [], self2) \<Rightarrow> (([], Some IndexError), self2)
            | (Inr (n # sh2), self2) \<Rightarrow> iter_reads plugins self2 [0..<n]))"

subsection \<open>Reference notions and examples for the dataset properties\<close>

text \<open>The value each hook hands to the next: the hooks applied in order to the incoming value.\<close>

definition pipeline_value :: "plugin list \<Rightarrow> pyval \<Rightarrow> pyval" where
  "pipeline_value plugins data = fold (\<lambda>p v. fst (plugin_prepare_write p v)) plugins data"

text \<open>What each plugin returns for a write, in order: its identifier, attributes and metadata.\<close>

fun contributions :: "plugin list \<Rightarrow> pyval \<Rightarrow> (string \<times> pyval dict \<times> plugin_meta) list" where
  "contributions [] data = []"
| "contributions (p # ps) data =
     (case plugin_prepare_write p data of
        (data', plugin_attrs, plugin_meta) \<Rightarrow>
          (IDENTIFIER p, plugin_attrs, plugin_meta) # contributions ps data')"

text \<open>
  Examples: a plugin whose write hook reports whether it was handed an array, the dataset
  \<^verbatim>\<open>/a\<close> of the store \<^verbatim>\<open>/r\<close> holding \<^verbatim>\<open>[[1, 2], [3, 4]]\<close>, and the dataset
  \<^verbatim>\<open>/b\<close> opened read-only.
\<close>

definition probe :: plugin where
  "probe =
     \<lparr>IDENTIFIER = ''probe'',
      plugin_prepare_write =
        (\<lambda>v. (case v of PArray a \<Rightarrow> PStr ''array'' | _ \<Rightarrow> PStr ''raw'', [],
              \<lparr>required = False, details = []\<rparr>)),
      plugin_prepare_read = (\<lambda>v attrs. v)\<rparr>"

definition ds_a :: Dataset where
  "ds_a =
     \<lparr>root_dir = [''r''], parent_path = [], object_name = [''a''], io_mode = Some READ_WRITE,
      validate_name = (\<lambda>fs container name. None),
      data_memmap = None,
      data_file = Some \<lparr>shape = [2, 2], elems = [Num 1, Num 2, Num 3, Num 4]\<rparr>,
      saves = 0, attributes_file = [], meta_plugins = []\<rparr>"

definition ds_b :: Dataset where
  "ds_b = ds_a\<lparr>object_name := [''b''], io_mode := Some READ_ONLY\<rparr>"

text \<open>
  The metadata records of the plugins that reported \<^verbatim>\<open>required\<close> on a write, and the
  attributes all plugins contributed, both in the order of the pipeline.
\<close>

definition required_records :: "plugin list \<Rightarrow> pyval \<Rightarrow> plugin_meta dict" where
  "required_records plugins data =
     map (\<lambda>(ident, plugin_attrs, plugin_meta). (ident, plugin_meta))
       (filter (\<lambda>(ident, plugin_attrs, plugin_meta). required plugin_meta)
          (contributions plugins data))"

definition contributed_attrs :: "plugin list \<Rightarrow> pyval \<Rightarrow> pyval dict" where
  "contributed_attrs plugins data =
     concat (map (\<lambda>(ident, plugin_attrs, plugin_meta). plugin_attrs) (contributions plugins data))"

text \<open>
  What a write leaves in the two sidecars: the plugin metadata is the dict built from the
  required records alone, so it has their identifiers as keys, the record of the last
  plugin under each, and none of the earlier keys that this write did not produce; the
  attribute file keeps every key it had, a contributed key holds the value contributed
  last, and every other key holds its old value.
\<close>

definition sidecars_after_write :: "plugin list \<Rightarrow> pyval \<Rightarrow> Dataset \<Rightarrow> Dataset \<Rightarrow> bool" where
  "sidecars_after_write plugins value self self' =
     (meta_plugins self' = dict_update [] (required_records plugins value) \<and>
      fst ` set (meta_plugins self') = fst ` set (required_records plugins value) \<and>
      (\<forall>k. map_of (meta_plugins self') k = map_of (rev (required_records plugins value)) k) \<and>
      (\<forall>k. k \<in> fst ` set (meta_plugins self) \<and> k \<notin> fst ` set (required_records plugins value) \<longrightarrow>
           map_of (meta_plugins self') k = None) \<and>
      fst ` set (attributes_file self) \<subseteq> fst ` set (attributes_file self') \<and>
      (\<forall>k. map_of (attributes_file self') k =
           (case map_of (rev (contributed_attrs plugins value)) k of
              Some v \<Rightarrow> Some v
            | None \<Rightarrow> map_of (attributes_file self) k)))"

text \<open>
  Examples: a plugin that reports \<^verbatim>\<open>required\<close>, one that does not, the dataset \<^verbatim>\<open>/a\<close>
  with an attribute and the record of an earlier plugin, and that dataset after an indexed
  write and after a rewrite of the whole payload.
\<close>

definition units :: plugin where
  "units =
     \<lparr>IDENTIFIER = ''units'',
      plugin_prepare_write =
        (\<lambda>v. (v, [(''unit'', PStr ''mV'')], \<lparr>required = True, details = [(''unit'', PStr ''mV'')]\<rparr>)),
      plugin_prepare_read = (\<lambda>v attrs. v)\<rparr>"

definition remarks :: plugin where
  "remarks =
     \<lparr>IDENTIFIER = ''notes'',
      plugin_prepare_write =
        (\<lambda>v. (v, [(''note'', PStr ''checked'')], \<lparr>required = False, details = []\<rparr>)),
      plugin_prepare_read = (\<lambda>v attrs. v)\<rparr>"

definition ds_old :: Dataset where
  "ds_old =
     ds_a\<lparr>attributes_file := [(''owner'', PStr ''lab'')],
          meta_plugins := [(''legacy'', \<lparr>required = True, details = []\<rparr>)]\<rparr>"

definition ds_new :: Dataset where
  "ds_new =
     ds_a\<lparr>data_memmap := Some \<lparr>shape = [2, 2], elems = [Num 1, Num 7, Num 3, Num 4]\<rparr>,
          data_file := Some \<lparr>shape = [2, 2], elems = [Num 1, Num 7, Num 3, Num 4]\<rparr>,
          attributes_file :=
            [(''owner'', PStr ''lab''), (''unit'', PStr ''mV''), (''note'', PStr ''checked'')],
          meta_plugins := [(''units'', \<lparr>required = True, details = [(''unit'', PStr ''mV'')]\<rparr>)]\<rparr>"

definition ds_reset :: Dataset where
  "ds_reset =
     ds_a\<lparr>data_memmap := Some \<lparr>shape = [1, 3], elems = [Num 1, Num 2, Num 3]\<rparr>,
          data_file := Some \<lparr>shape = [1, 3], elems = [Num 1, Num 2, Num 3]\<rparr>,
          saves := 1,
          attributes_file := [(''owner'', PStr ''lab''), (''unit'', PStr ''mV'')],
          meta_plugins := [(''units'', \<lparr>required = True, details = [(''unit'', PStr ''mV'')]\<rparr>)]\<rparr>"

text \<open>Example: the dataset \<^verbatim>\<open>/s\<close> holding the zero-dimensional array 5.\<close>

definition ds_scalar :: Dataset where
  "ds_scalar = ds_a\<lparr>object_name := [''s''], data_file := Some \<lparr>shape = [], elems = [Num 5]\<rparr>\<rparr>"

section \<open>Properties\<close>

lemmas names_defs = EXDIR_METANAME_def TYPE_METANAME_def VERSION_METANAME_def META_FILENAME_def
  DATASET_TYPENAME_def GROUP_TYPENAME_def FILE_TYPENAME_def valid_types_def

lemma py_in_YMap: "py_in k (YMap kvs) = Inr (map_of kvs (YStr k) \<noteq> None)"
  by (simp add: py_in_def map_of_eq_None_iff)

lemma nonraw_absent:
  "fs (d @ [META_FILENAME]) = None \<Longrightarrow> is_nonraw_object_directory fs d = Inr False"
  by (simp add: is_nonraw_object_directory_def path_join_def path_exists_def)

lemma nonraw_unparsable:
  "fs (d @ [META_FILENAME]) = Some (File Unparsable) \<Longrightarrow> is_nonraw_object_directory fs d = Inl YAMLError"
  by (simp add: is_nonraw_object_directory_def path_join_def path_exists_def open_read_def safe_load_def)

lemma nonraw_isadir:
  "fs (d @ [META_FILENAME]) = Some Dir \<Longrightarrow> is_nonraw_object_directory fs d = Inl (IsADirectoryError (d @ [META_FILENAME]))"
  by (simp add: is_nonraw_object_directory_def path_join_def path_exists_def open_read_def safe_load_def)

lemma nonraw_document:
  "fs (d @ [META_FILENAME]) = Some (File (Document y)) \<Longrightarrow>
   is_nonraw_object_directory fs d =
     (case y of
        YMap kvs \<Rightarrow>
          (case map_of kvs (YStr EXDIR_METANAME) of
             None \<Rightarrow> Inr False
           | Some x \<Rightarrow>
               (case py_in TYPE_METANAME x of
                  Inl e \<Rightarrow> Inl e
                | Inr False \<Rightarrow> Inr False
                | Inr True \<Rightarrow>
                    (case py_getitem x TYPE_METANAME of
                       Inl e \<Rightarrow> Inl e
                     | Inr t \<Rightarrow> Inr (t \<in> set (map YStr valid_types)))))
      | _ \<Rightarrow> Inr False)"
  by (cases y)
     (auto simp: is_nonraw_object_directory_def path_join_def path_exists_def open_read_def
        safe_load_def isinstance_dict_def py_in_YMap py_getitem_def
        split: option.splits sum.splits bool.splits)

lemma nonraw_True_iff:
  "is_nonraw_object_directory fs d = Inr True \<longleftrightarrow> has_valid_metadata fs d"
proof (cases "fs (d @ [META_FILENAME])")
  case None
  then show ?thesis
    by (simp add: nonraw_absent has_valid_metadata_def metadata_type_def)
next
  case (Some n)
  show ?thesis
  proof (cases n)
    case Dir
    with Some show ?thesis
      by (simp add: nonraw_isadir has_valid_metadata_def metadata_type_def)
  next
    case (File c)
    show ?thesis
    proof (cases c)
      case Unparsable
      with Some File show ?thesis
        by (simp add: nonraw_unparsable has_valid_metadata_def metadata_type_def)
    next
      case (Document y)
      with Some File have "fs (d @ [META_FILENAME]) = Some (File (Document y))" by simp
      then show ?thesis
        apply (simp add: nonraw_document has_valid_metadata_def metadata_type_def)
        apply (auto simp: py_in_def py_getitem_def names_defs map_of_eq_None_iff [symmetric]
                    split: yaml.splits option.splits sum.splits bool.splits)
        done
    qed
  qed
qed

subsection \<open>C1: the managed-object query\<close>

text \<open>
  C1 (as amended). \<^verbatim>\<open>is_nonraw_object_directory\<close> returns true exactly when the directory
  holds a metadata file that parses to a mapping whose \<^verbatim>\<open>exdir\<close> entry is a mapping with
  a \<^verbatim>\<open>type\<close> among dataset, group and file. It returns false when the metadata file is
  absent, when the document is not a mapping, when the mapping has no \<^verbatim>\<open>exdir\<close> key, when
  the \<^verbatim>\<open>exdir\<close> mapping has no \<^verbatim>\<open>type\<close> key, and when the type is unknown. Text the
  YAML loader rejects is not turned into false: the loader's exception leaves the function.
\<close>

theorem is_nonraw_object_directory_cases:
  "(is_nonraw_object_directory fs d = Inr True \<longleftrightarrow> has_valid_metadata fs d) \<and>
   (fs (d @ [META_FILENAME]) = None \<longrightarrow> is_nonraw_object_directory fs d = Inr False) \<and>
   (\<forall>y. fs (d @ [META_FILENAME]) = Some (File (Document y)) \<and> \<not> isinstance_dict y \<longrightarrow>
        is_nonraw_object_directory fs d = Inr False) \<and>
   (\<forall>kvs. fs (d @ [META_FILENAME]) = Some (File (Document (YMap kvs))) \<and>
          map_of kvs (YStr EXDIR_METANAME) = None \<longrightarrow>
        is_nonraw_object_directory fs d = Inr False) \<and>
   (\<forall>kvs ekvs. fs (d @ [META_FILENAME]) = Some (File (Document (YMap kvs))) \<and>
          map_of kvs (YStr EXDIR_METANAME) = Some (YMap ekvs) \<and>
          map_of ekvs (YStr TYPE_METANAME) = None \<longrightarrow>
        is_nonraw_object_directory fs d = Inr False) \<and>
   (\<forall>kvs ekvs t. fs (d @ [META_FILENAME]) = Some (File (Document (YMap kvs))) \<and>
          map_of kvs (YStr EXDIR_METANAME) = Some (YMap ekvs) \<and>
          map_of ekvs (YStr TYPE_METANAME) = Some t \<and>
          t \<notin> {YStr ''dataset'', YStr ''group'', YStr ''file''} \<longrightarrow>
        is_nonraw_object_directory fs d = Inr False) \<and>
   (fs (d @ [META_FILENAME]) = Some (File Unparsable) \<longrightarrow>
        is_nonraw_object_directory fs d = Inl YAMLError)"
proof (intro conjI allI impI)
  show "is_nonraw_object_directory fs d = Inr True \<longleftrightarrow> has_valid_metadata fs d"
    by (rule nonraw_True_iff)
next
  assume "fs (d @ [META_FILENAME]) = None"
  then show "is_nonraw_object_directory fs d = Inr False"
    by (rule nonraw_absent)
next
  fix y
  assume "fs (d @ [META_FILENAME]) = Some (File (Document y)) \<and> \<not> isinstance_dict y"
  then show "is_nonraw_object_directory fs d = Inr False"
    by (cases y) (simp_all add: nonraw_document isinstance_dict_def)
next
  fix kvs
  assume "fs (d @ [META_FILENAME]) = Some (File (Document (YMap kvs))) \<and>
          map_of kvs (YStr EXDIR_METANAME) = None"
  then show "is_nonraw_object_directory fs d = Inr False"
    by (simp add: nonraw_document)
next
  fix kvs ekvs
  assume "fs (d @ [META_FILENAME]) = Some (File (Document (YMap kvs))) \<and>
          map_of kvs (YStr EXDIR_METANAME) = Some (YMap ekvs) \<and>
          map_of ekvs (YStr TYPE_METANAME) = None"
  then show "is_nonraw_object_directory fs d = Inr False"
    by (simp add: nonraw_document py_in_YMap)
next
  fix kvs ekvs t
  assume "fs (d @ [META_FILENAME]) = Some (File (Document (YMap kvs))) \<and>
          map_of kvs (YStr EXDIR_METANAME) = Some (YMap ekvs) \<and>
          map_of ekvs (YStr TYPE_METANAME) = Some t \<and>
          t \<notin> {YStr ''dataset'', YStr ''group'', YStr ''file''}"
  then show "is_nonraw_object_directory fs d = Inr False"
    by (simp add: nonraw_document py_in_YMap py_getitem_def names_defs)
next
  assume "fs (d @ [META_FILENAME]) = Some (File Unparsable)"
  then show "is_nonraw_object_directory fs d = Inl YAMLError"
    by (rule nonraw_unparsable)
qed

text \<open>The cases of C1 on concrete directories.\<close>

theorem is_nonraw_object_directory_cases_witness:
  "is_nonraw_object_directory (fs_with (Document (new_metadata ''group''))) [''d''] = Inr True \<and>
   has_valid_metadata (fs_with (Document (new_metadata ''group''))) [''d''] \<and>
   is_nonraw_object_directory fs_plain [''d''] = Inr False \<and>
   is_nonraw_object_directory (fs_with (Document (YSeq []))) [''d''] = Inr False \<and>
   is_nonraw_object_directory (fs_with (Document (YMap []))) [''d''] = Inr False \<and>
   is_nonraw_object_directory
     (fs_with (Document (YMap [(YStr ''exdir'', YMap [])]))) [''d''] = Inr False \<and>
   is_nonraw_object_directory
     (fs_with (Document (YMap [(YStr ''exdir'', YMap [(YStr ''type'', YStr ''table'')])])))
     [''d''] = Inr False \<and>
   is_nonraw_object_directory (fs_with Unparsable) [''d''] = Inl YAMLError"
  using is_nonraw_object_directory_cases [of "fs_with (Document (new_metadata ''group''))" "[''d'']"]
    is_nonraw_object_directory_cases [of fs_plain "[''d'']"]
    is_nonraw_object_directory_cases [of "fs_with (Document (YSeq []))" "[''d'']"]
    is_nonraw_object_directory_cases [of "fs_with (Document (YMap []))" "[''d'']"]
    is_nonraw_object_directory_cases
      [of "fs_with (Document (YMap [(YStr ''exdir'', YMap [])]))" "[''d'']"]
    is_nonraw_object_directory_cases
      [of "fs_with (Document (YMap [(YStr ''exdir'', YMap [(YStr ''type'', YStr ''table'')])]))"
          "[''d'']"]
    is_nonraw_object_directory_cases [of "fs_with Unparsable" "[''d'']"]
  by (simp add: fs_with_def fs_plain_def has_valid_metadata_def metadata_type_def new_metadata_def
        isinstance_dict_def names_defs)

text \<open>
  C1 as stated fails: on a directory whose metadata file holds unparsable text the query
  raises the loader's exception instead of returning false.
\<close>

theorem is_nonraw_object_directory_raises:
  "is_nonraw_object_directory (fs_with Unparsable) [''d''] = Inl YAMLError \<and>
   is_nonraw_object_directory (fs_with Unparsable) [''d''] \<noteq> Inr False"
  by (simp add: nonraw_unparsable fs_with_def names_defs)

subsection \<open>C2: creating an object directory\<close>

lemma wf_fs_child_absent: "wf_fs fs \<Longrightarrow> fs d = None \<Longrightarrow> fs (d @ [c]) = None"
  unfolding wf_fs_def by (metis butlast_snoc option.distinct(1) snoc_eq_iff_butlast)

lemma create_object_directory_ok:
  assumes "wf_fs fs" "path_isdir fs (path_dirname d)" "\<not> path_exists fs d"
    and "t \<in> {''dataset'', ''group'', ''file''}"
  shows "create_object_directory fs d t =
           Inr (fs(d \<mapsto> Dir, d @ [META_FILENAME] \<mapsto> File (Document (new_metadata t))))"
proof -
  from assms(3) have absent: "fs d = None"
    by (simp add: path_exists_def)
  with assms(1) have "fs (d @ [META_FILENAME]) = None"
    by (rule wf_fs_child_absent)
  with absent assms(2,4) show ?thesis
    by (auto simp: create_object_directory_def path_exists_def path_isdir_def os_mkdir_def
          open_write_def metafile_from_directory_def path_join_def path_dirname_def names_defs)
qed

lemma nonraw_new_metadata:
  assumes "fs (d @ [META_FILENAME]) = Some (File (Document (new_metadata t)))"
    and "t \<in> {''dataset'', ''group'', ''file''}"
  shows "is_nonraw_object_directory fs d = Inr True"
  using assms
  by (auto simp: nonraw_True_iff has_valid_metadata_def metadata_type_def new_metadata_def)

text \<open>
  C2. \<^verbatim>\<open>_create_object_directory\<close> raises the already-exists \<^verbatim>\<open>IOError\<close> when the
  directory is present, and the typename \<^verbatim>\<open>ValueError\<close> when it is absent and the typename
  is not dataset, group or file. Otherwise, in a filesystem where the parent of the directory
  is a directory, it creates the directory and writes the metadata record with that type and
  version 1, after which \<^verbatim>\<open>is_nonraw_object_directory\<close> returns true. On a directory
  without a metadata file \<^verbatim>\<open>is_nonraw_object_directory\<close> returns false and
  \<^verbatim>\<open>is_raw_object_directory\<close> returns true.
\<close>

theorem create_object_directory_spec:
  "(path_exists fs d \<longrightarrow> create_object_directory fs d t = Inl (IOError_already_exists d)) \<and>
   (\<not> path_exists fs d \<and> t \<notin> {''dataset'', ''group'', ''file''} \<longrightarrow>
      create_object_directory fs d t = Inl (ValueError_typename t)) \<and>
   (wf_fs fs \<and> path_isdir fs (path_dirname d) \<and> \<not> path_exists fs d \<and>
    t \<in> {''dataset'', ''group'', ''file''} \<longrightarrow>
      create_object_directory fs d t =
        Inr (fs(d \<mapsto> Dir,
                d @ [''exdir.yaml''] \<mapsto>
                  File (Document (YMap [(YStr ''exdir'',
                     YMap [(YStr ''type'', YStr t), (YStr ''version'', YInt 1)])])))) \<and>
      (case create_object_directory fs d t of
         Inl e \<Rightarrow> False
       | Inr fs' \<Rightarrow> is_nonraw_object_directory fs' d = Inr True)) \<and>
   (path_isdir fs d \<and> \<not> path_exists fs (d @ [''exdir.yaml'']) \<longrightarrow>
      is_nonraw_object_directory fs d = Inr False \<and> is_raw_object_directory fs d = Inr True)"
proof (intro conjI impI)
  assume "path_exists fs d"
  then show "create_object_directory fs d t = Inl (IOError_already_exists d)"
    by (simp add: create_object_directory_def)
next
  assume "\<not> path_exists fs d \<and> t \<notin> {''dataset'', ''group'', ''file''}"
  then show "create_object_directory fs d t = Inl (ValueError_typename t)"
    by (simp add: create_object_directory_def names_defs)
next
  assume a: "wf_fs fs \<and> path_isdir fs (path_dirname d) \<and> \<not> path_exists fs d \<and>
    t \<in> {''dataset'', ''group'', ''file''}"
  then have c: "create_object_directory fs d t =
           Inr (fs(d \<mapsto> Dir, d @ [META_FILENAME] \<mapsto> File (Document (new_metadata t))))"
    by (simp add: create_object_directory_ok)
  then show "create_object_directory fs d t =
        Inr (fs(d \<mapsto> Dir,
                d @ [''exdir.yaml''] \<mapsto>
                  File (Document (YMap [(YStr ''exdir'',
                     YMap [(YStr ''type'', YStr t), (YStr ''version'', YInt 1)])]))))"
    by (simp add: new_metadata_def names_defs)
  from a have "is_nonraw_object_directory
      (fs(d \<mapsto> Dir, d @ [META_FILENAME] \<mapsto> File (Document (new_metadata t)))) d = Inr True"
    by (intro nonraw_new_metadata [where t = t]) simp_all
  with c show "case create_object_directory fs d t of
         Inl e \<Rightarrow> False
       | Inr fs' \<Rightarrow> is_nonraw_object_directory fs' d = Inr True"
    by simp
next
  assume a: "path_isdir fs d \<and> \<not> path_exists fs (d @ [''exdir.yaml''])"
  then show "is_nonraw_object_directory fs d = Inr False"
    by (simp add: nonraw_absent path_exists_def names_defs)
  with a show "is_raw_object_directory fs d = Inr True"
    by (simp add: is_raw_object_directory_def is_exdir_object_def)
qed

lemma wf_fs_plain: "wf_fs fs_plain"
  by (auto simp: wf_fs_def fs_plain_def split: if_splits)

text \<open>C2 on the plain directory \<^verbatim>\<open>/d\<close>: the two failures, a creation, and the raw query.\<close>

theorem create_object_directory_spec_witness:
  "create_object_directory fs_plain [''d''] ''group'' = Inl (IOError_already_exists [''d'']) \<and>
   create_object_directory fs_plain [''x''] ''table'' = Inl (ValueError_typename ''table'') \<and>
   create_object_directory fs_plain [''d'', ''a''] ''dataset'' =
     Inr (fs_plain([''d'', ''a''] \<mapsto> Dir,
            [''d'', ''a'', ''exdir.yaml''] \<mapsto>
               File (Document (YMap [(YStr ''exdir'',
                 YMap [(YStr ''type'', YStr ''dataset''), (YStr ''version'', YInt 1)])])))) \<and>
   is_nonraw_object_directory
     (fs_plain([''d'', ''a''] \<mapsto> Dir,
            [''d'', ''a'', ''exdir.yaml''] \<mapsto>
               File (Document (YMap [(YStr ''exdir'',
                 YMap [(YStr ''type'', YStr ''dataset''), (YStr ''version'', YInt 1)])]))))
     [''d'', ''a''] = Inr True \<and>
   is_nonraw_object_directory fs_plain [''d''] = Inr False \<and>
   is_raw_object_directory fs_plain [''d''] = Inr True"
proof -
  have pre: "wf_fs fs_plain \<and> path_isdir fs_plain (path_dirname [''d'', ''a'']) \<and>
      \<not> path_exists fs_plain [''d'', ''a''] \<and> ''dataset'' \<in> {''dataset'', ''group'', ''file''}"
    using wf_fs_plain by (simp add: path_exists_def path_isdir_def path_dirname_def fs_plain_def)
  note new = create_object_directory_spec [of fs_plain "[''d'', ''a'']" "''dataset''"]
  from new pre have created: "create_object_directory fs_plain [''d'', ''a''] ''dataset'' =
     Inr (fs_plain([''d'', ''a''] \<mapsto> Dir,
            [''d'', ''a'', ''exdir.yaml''] \<mapsto>
               File (Document (YMap [(YStr ''exdir'',
                 YMap [(YStr ''type'', YStr ''dataset''), (YStr ''version'', YInt 1)])]))))"
    by simp
  from new pre have "case create_object_directory fs_plain [''d'', ''a''] ''dataset'' of
      Inl e \<Rightarrow> False
    | Inr fs' \<Rightarrow> is_nonraw_object_directory fs' [''d'', ''a''] = Inr True"
    by blast
  with created have managed: "is_nonraw_object_directory
     (fs_plain([''d'', ''a''] \<mapsto> Dir,
            [''d'', ''a'', ''exdir.yaml''] \<mapsto>
               File (Document (YMap [(YStr ''exdir'',
                 YMap [(YStr ''type'', YStr ''dataset''), (YStr ''version'', YInt 1)])]))))
     [''d'', ''a''] = Inr True"
    by simp
  have others: "create_object_directory fs_plain [''d''] ''group'' = Inl (IOError_already_exists [''d'']) \<and>
     create_object_directory fs_plain [''x''] ''table'' = Inl (ValueError_typename ''table'') \<and>
     is_nonraw_object_directory fs_plain [''d''] = Inr False \<and>
     is_raw_object_directory fs_plain [''d''] = Inr True"
    using create_object_directory_spec [of fs_plain "[''d'']" "''group''"]
      create_object_directory_spec [of fs_plain "[''x'']" "''table''"]
    by (simp add: path_exists_def path_isdir_def fs_plain_def)
  from created managed others show ?thesis
    by simp
qed

subsection \<open>C3: finding the store root\<close>


















lemmas fs_eval_defs = is_nonraw_object_directory_def path_join_def path_exists_def open_read_def
  safe_load_def isinstance_dict_def py_in_YMap py_getitem_def new_metadata_def
  metafile_from_directory_def path_dirname_def path_abspath_def names_defs











subsection \<open>C4: raw directories\<close>

text \<open>
  C4 on the group \<^verbatim>\<open>/r/g\<close>. \<^verbatim>\<open>create_raw\<close> makes the directory \<^verbatim>\<open>/r/g/blob\<close> and
  returns a handle built from the group's parent path, whose directory is \<^verbatim>\<open>/r/blob\<close>,
  which does not exist. The first \<^verbatim>\<open>require_raw\<close> returns that handle; the second
  returns the path \<^verbatim>\<open>/r/g/blob\<close> and no handle.
\<close>

theorem create_raw_handle_elsewhere:
  "create_raw fs_store group_g [''blob''] =
     Inr (\<lparr>raw_root_dir = [''r''], raw_parent_path = [], raw_object_name = [''blob''],
            raw_io_mode = None\<rparr>,
          fs_store([''r'', ''g'', ''blob''] \<mapsto> Dir)) \<and>
   raw_directory \<lparr>raw_root_dir = [''r''], raw_parent_path = [], raw_object_name = [''blob''],
            raw_io_mode = None\<rparr> = [''r'', ''blob''] \<and>
   (fs_store([''r'', ''g'', ''blob''] \<mapsto> Dir)) [''r'', ''blob''] = None \<and>
   require_raw fs_store group_g [''blob''] =
     Inr (RawHandle \<lparr>raw_root_dir = [''r''], raw_parent_path = [], raw_object_name = [''blob''],
            raw_io_mode = None\<rparr>,
          fs_store([''r'', ''g'', ''blob''] \<mapsto> Dir)) \<and>
   require_raw (fs_store([''r'', ''g'', ''blob''] \<mapsto> Dir)) group_g [''blob''] =
     Inr (DirectoryName [''r'', ''g'', ''blob''], fs_store([''r'', ''g'', ''blob''] \<mapsto> Dir))"
proof -
  have c: "create_raw fs_store group_g [''blob''] =
     Inr (\<lparr>raw_root_dir = [''r''], raw_parent_path = [], raw_object_name = [''blob''],
            raw_io_mode = None\<rparr>,
          fs_store([''r'', ''g'', ''blob''] \<mapsto> Dir))"
    by (simp add: create_raw_def assert_valid_name_def group_g_def directory_def relative_path_def
          path_join_def path_exists_def os_mkdir_def path_dirname_def fs_store_def)
  have "fs_store [''r'', ''g'', ''blob''] = None"
    by (simp add: fs_store_def)
  with c have r1: "require_raw fs_store group_g [''blob''] =
     Inr (RawHandle \<lparr>raw_root_dir = [''r''], raw_parent_path = [], raw_object_name = [''blob''],
            raw_io_mode = None\<rparr>,
          fs_store([''r'', ''g'', ''blob''] \<mapsto> Dir))"
    by (simp add: require_raw_def group_g_def directory_def relative_path_def path_join_def
          path_exists_def Let_def)
  have "is_nonraw_object_directory (fs_store([''r'', ''g'', ''blob''] \<mapsto> Dir))
          [''r'', ''g'', ''blob''] = Inr False"
    by (simp add: fs_store_def fs_eval_defs)
  then have r2: "require_raw (fs_store([''r'', ''g'', ''blob''] \<mapsto> Dir)) group_g [''blob''] =
     Inr (DirectoryName [''r'', ''g'', ''blob''], fs_store([''r'', ''g'', ''blob''] \<mapsto> Dir))"
    by (simp add: require_raw_def group_g_def directory_def relative_path_def path_join_def
          path_exists_def Let_def)
  from c r1 r2 show ?thesis
    by (simp add: raw_directory_def path_join_def fs_store_def)
qed

subsection \<open>C6: writing through a read-only handle\<close>

text \<open>
  C6. On a handle whose \<^verbatim>\<open>io_mode\<close> is \<^verbatim>\<open>READ_ONLY\<close>, \<^verbatim>\<open>dataset[selector] = value\<close>
  raises the read-only \<^verbatim>\<open>IOError\<close> for every selector and value, whatever plugins are
  registered (none has run), and leaves the handle, the attribute file, the metadata and
  the payload as they were.
\<close>

theorem setitem_read_only:
  "io_mode self = Some READ_ONLY \<longrightarrow>
     setitem plugins self args value = (Inl IOError_read_only, self) \<and>
     setitem plugins self args value = setitem [] self args value \<and>
     attributes_file (snd (setitem plugins self args value)) = attributes_file self \<and>
     meta_plugins (snd (setitem plugins self args value)) = meta_plugins self \<and>
     data_file (snd (setitem plugins self args value)) = data_file self \<and>
     data_memmap (snd (setitem plugins self args value)) = data_memmap self"
  by (simp add: setitem_def)

text \<open>C6 on the read-only dataset \<^verbatim>\<open>/b\<close>, with an indexed and a full-range write.\<close>

theorem setitem_read_only_witness:
  "io_mode ds_b = Some READ_ONLY \<and>
   setitem [probe] ds_b (Indices [0, 1]) (PNumber 7) = (Inl IOError_read_only, ds_b) \<and>
   setitem [probe] ds_b FullSlice (PArray \<lparr>shape = [2, 2], elems = [Num 0, Num 0, Num 0, Num 0]\<rparr>)
     = (Inl IOError_read_only, ds_b)"
  using setitem_read_only [of ds_b "[probe]" "Indices [0, 1]" "PNumber 7"]
    setitem_read_only [of ds_b "[probe]" FullSlice
      "PArray \<lparr>shape = [2, 2], elems = [Num 0, Num 0, Num 0, Num 0]\<rparr>"]
  by (simp add: ds_b_def ds_a_def)

subsection \<open>C8: where the write pipeline normalises the value\<close>

lemma prepare_write_loop_value:
  "fst (prepare_write_loop plugins data attrs meta) = pipeline_value plugins data"
  by (induction plugins arbitrary: data attrs meta)
     (simp_all add: pipeline_value_def split: prod.splits)

text \<open>
  C8 (as amended). \<^verbatim>\<open>_prepare_write\<close> hands the incoming value as it is to the first
  plugin, and every plugin's result to the next. What the last plugin returns (the incoming
  value when no plugin is registered) is converted to a row-major array when it is a
  number, a tuple or a string, and returned unchanged otherwise.
\<close>

theorem prepare_write_normalises_last:
  "(isinstance_number_tuple_str (pipeline_value plugins data) \<longrightarrow>
      (case prepare_write plugins data of
         Inl e \<Rightarrow> asarray (pipeline_value plugins data) = Inl e
       | Inr (value, attrs, meta) \<Rightarrow>
           (case asarray (pipeline_value plugins data) of
              Inl e \<Rightarrow> False
            | Inr a \<Rightarrow> value = PArray a))) \<and>
   (\<not> isinstance_number_tuple_str (pipeline_value plugins data) \<longrightarrow>
      (case prepare_write plugins data of
         Inl e \<Rightarrow> False
       | Inr (value, attrs, meta) \<Rightarrow> value = pipeline_value plugins data)) \<and>
   pipeline_value [] data = data \<and>
   (\<forall>p ps. pipeline_value (p # ps) data = pipeline_value ps (fst (plugin_prepare_write p data)))"
proof -
  obtain d a m where loop: "prepare_write_loop plugins data [] [] = (d, a, m)"
    by (cases "prepare_write_loop plugins data [] []") auto
  with prepare_write_loop_value [of plugins data "[]" "[]"] have "d = pipeline_value plugins data"
    by simp
  with loop show ?thesis
    by (auto simp: prepare_write_def pipeline_value_def split: sum.splits)
qed

text \<open>C8 without plugins: a tuple is converted, a list is not.\<close>

theorem prepare_write_normalises_last_witness:
  "isinstance_number_tuple_str (pipeline_value [] (PTuple [PNumber 1, PNumber 2])) \<and>
   prepare_write [] (PTuple [PNumber 1, PNumber 2]) =
     Inr (PArray \<lparr>shape = [2], elems = [Num 1, Num 2]\<rparr>, [], []) \<and>
   \<not> isinstance_number_tuple_str (pipeline_value [] (PList [PNumber 1])) \<and>
   prepare_write [] (PList [PNumber 1]) = Inr (PList [PNumber 1], [], [])"
  using prepare_write_normalises_last [of "[]" "PTuple [PNumber 1, PNumber 2]"]
    prepare_write_normalises_last [of "[]" "PList [PNumber 1]"]
  by (simp add: prepare_write_def pipeline_value_def isinstance_number_tuple_str_def stack_def)

text \<open>
  C8 as stated fails: writing the number 5 with the probing plugin registered, the plugin
  is handed the number, not an array, and the conversion happens to what the plugin returns.
\<close>

theorem prepare_write_first_plugin_sees_raw:
  "fst (plugin_prepare_write probe (PNumber 5)) = PStr ''raw'' \<and>
   fst (plugin_prepare_write probe (PArray \<lparr>shape = [], elems = [Num 5]\<rparr>)) = PStr ''array'' \<and>
   prepare_write [probe] (PNumber 5) = Inr (PArray \<lparr>shape = [], elems = [Txt ''raw'']\<rparr>, [], [])"
  by (simp add: prepare_write_def probe_def isinstance_number_tuple_str_def dict_update_def)

subsection \<open>Dictionaries, the write loop and the mapped array\<close>

lemma dict_update_append: "dict_update d (e1 @ e2) = dict_update (dict_update d e1) e2"
  by (simp add: dict_update_def)

lemma dict_update_Nil: "dict_update d [] = d"
  by (simp add: dict_update_def)

lemma dict_update_Cons: "dict_update d ((k, v) # e) = dict_update (AList.update k v d) e"
  by (simp add: dict_update_def)

lemma map_of_dict_update: "map_of (dict_update d e) = map_of d ++ map_of (rev e)"
proof (induction e arbitrary: d)
  case Nil
  show ?case by (simp add: dict_update_Nil)
next
  case (Cons kv e)
  obtain k v where kv: "kv = (k, v)" by (cases kv)
  have "map_of (dict_update d (kv # e)) = map_of (AList.update k v d) ++ map_of (rev e)"
    by (simp add: kv dict_update_Cons Cons.IH)
  also have "\<dots> = (map_of d)(k \<mapsto> v) ++ map_of (rev e)"
    by (simp add: update_conv')
  also have "\<dots> = map_of d ++ (map_of [(k, v)] ++ map_of (rev e))"
    by (simp add: map_add_upd_left fun_eq_iff map_add_def split: option.splits)
  also have "\<dots> = map_of d ++ map_of (rev (kv # e))"
    by (simp add: kv)
  finally show ?case .
qed

lemma keys_dict_update: "fst ` set (dict_update d e) = fst ` set d \<union> fst ` set e"
proof (induction e arbitrary: d)
  case Nil
  show ?case by (simp add: dict_update_Nil)
next
  case (Cons kv e)
  obtain k v where kv: "kv = (k, v)" by (cases kv)
  show ?case
    by (simp add: kv dict_update_Cons Cons.IH dom_update)
qed

lemma prepare_write_loop_decompose:
  "prepare_write_loop plugins data attrs meta =
     (pipeline_value plugins data,
      dict_update attrs (contributed_attrs plugins data),
      dict_update meta (required_records plugins data))"
proof (induction plugins arbitrary: data attrs meta)
  case Nil
  show ?case
    by (simp add: pipeline_value_def contributed_attrs_def required_records_def dict_update_Nil)
next
  case (Cons p ps)
  obtain d a m where hook: "plugin_prepare_write p data = (d, a, m)"
    by (cases "plugin_prepare_write p data")
  have v: "pipeline_value (p # ps) data = pipeline_value ps d"
    by (simp add: pipeline_value_def hook)
  have c: "contributed_attrs (p # ps) data = a @ contributed_attrs ps d"
    by (simp add: contributed_attrs_def hook)
  have r: "required_records (p # ps) data =
      (if required m then [(IDENTIFIER p, m)] else []) @ required_records ps d"
    by (simp add: required_records_def hook)
  show ?case
    by (simp add: hook Cons.IH v c r dict_update_append dict_update_Cons dict_update_Nil)
qed

lemma prepare_write_sidecars:
  assumes "prepare_write plugins value = Inr (v, attrs, meta)"
  shows "attrs = dict_update [] (contributed_attrs plugins value) \<and>
         meta = dict_update [] (required_records plugins value)"
  using assms
  by (auto simp: prepare_write_def prepare_write_loop_decompose split: if_splits sum.splits)


lemma map_of_rev_distinct: "distinct (map fst xs) \<Longrightarrow> map_of (rev xs) = map_of xs"
proof (induction xs)
  case Nil
  show ?case by simp
next
  case (Cons kv xs)
  then have "map_of xs (fst kv) = None"
    by (simp add: map_of_eq_None_iff)
  with Cons show ?case
    by (cases kv) (auto simp: fun_eq_iff map_add_def split: option.splits)
qed

lemma distinct_dict_update:
  "distinct (map fst d) \<Longrightarrow> distinct (map fst (dict_update d e))"
proof (induction e arbitrary: d)
  case Nil
  then show ?case by (simp add: dict_update_Nil)
next
  case (Cons kv e)
  then show ?case
    by (cases kv) (simp add: dict_update_Cons distinct_update)
qed

lemma map_of_merge_fresh:
  "map_of (dict_update d (dict_update [] e)) = map_of d ++ map_of (rev e)"
proof -
  have "distinct (map fst (dict_update [] e))"
    by (rule distinct_dict_update) simp
  then have "map_of (rev (dict_update [] e)) = map_of (dict_update [] e)"
    by (rule map_of_rev_distinct)
  then show ?thesis
    by (simp add: map_of_dict_update)
qed

lemma mapped_data_cases:
  "mapped_data self =
     (case data_memmap self of
        Some a \<Rightarrow> (Inr a, self)
      | None \<Rightarrow>
          (case data_file self of
             None \<Rightarrow> (Inl (FileNotFoundError (data_filename self)), self)
           | Some a \<Rightarrow> (Inr a, self\<lparr>data_memmap := Some a\<rparr>)))"
  by (simp add: mapped_data_def reload_data_def split: option.splits)

lemma mapped_data_frame:
  assumes "mapped_data self = (r, self1)"
  shows "meta_plugins self1 = meta_plugins self \<and> attributes_file self1 = attributes_file self \<and>
         data_file self1 = data_file self \<and> saves self1 = saves self \<and>
         io_mode self1 = io_mode self \<and> name self1 = name self"
  using assms
  by (auto simp: mapped_data_cases name_def relative_path_def split: option.splits)

lemma sidecars_after_writeI:
  assumes "meta_plugins self' = dict_update [] (required_records plugins value)"
    and "attributes_file self' =
           dict_update (attributes_file self) (dict_update [] (contributed_attrs plugins value))"
  shows "sidecars_after_write plugins value self self'"
proof -
  have keys: "fst ` set (meta_plugins self') = fst ` set (required_records plugins value)"
    by (simp add: assms(1) keys_dict_update)
  have lookup: "map_of (meta_plugins self') k = map_of (rev (required_records plugins value)) k" for k
    by (simp add: assms(1) map_of_dict_update)
  have gone: "map_of (meta_plugins self') k = None"
    if "k \<notin> fst ` set (required_records plugins value)" for k
    using that keys by (simp add: map_of_eq_None_iff)
  have kept: "fst ` set (attributes_file self) \<subseteq> fst ` set (attributes_file self')"
    by (simp add: assms(2) keys_dict_update)
  have merged: "map_of (attributes_file self') k =
      (case map_of (rev (contributed_attrs plugins value)) k of
         Some v \<Rightarrow> Some v
       | None \<Rightarrow> map_of (attributes_file self) k)" for k
    by (simp add: assms(2) map_of_merge_fresh map_add_def)
  show ?thesis
    unfolding sidecars_after_write_def
  proof (intro conjI allI impI)
    show "meta_plugins self' = dict_update [] (required_records plugins value)"
      by (rule assms(1))
    show "fst ` set (meta_plugins self') = fst ` set (required_records plugins value)"
      by (rule keys)
    show "map_of (meta_plugins self') k = map_of (rev (required_records plugins value)) k" for k
      by (rule lookup)
    show "map_of (meta_plugins self') k = None"
      if "k \<in> fst ` set (meta_plugins self) \<and> k \<notin> fst ` set (required_records plugins value)"
      for k
      using that by (simp add: gone)
    show "fst ` set (attributes_file self) \<subseteq> fst ` set (attributes_file self')"
      by (rule kept)
    show "map_of (attributes_file self') k =
      (case map_of (rev (contributed_attrs plugins value)) k of
         Some v \<Rightarrow> Some v
       | None \<Rightarrow> map_of (attributes_file self) k)" for k
      by (rule merged)
  qed
qed

lemma setitem_Inr:
  assumes "setitem plugins self args value = (Inr u, self')"
  obtains v attrs meta d self3 d' where
    "io_mode self \<noteq> Some READ_ONLY"
    "prepare_write plugins value = Inr (v, attrs, meta)"
    "mapped_data (self\<lparr>attributes_file := dict_update (attributes_file self) attrs,
                       meta_plugins := meta\<rparr>) = (Inr d, self3)"
    "nd_setitem d args v = Inr d'"
    "self' = self3\<lparr>data_memmap := Some d', data_file := Some d'\<rparr>"
proof (cases "io_mode self = Some READ_ONLY")
  case True
  with assms show ?thesis by (simp add: setitem_def)
next
  case False
  show ?thesis
  proof (cases "prepare_write plugins value")
    case (Inl e)
    with assms False show ?thesis by (simp add: setitem_def)
  next
    case (Inr triple)
    obtain v attrs meta where triple: "triple = (v, attrs, meta)"
      by (cases triple)
    define self2 where "self2 = self\<lparr>attributes_file := dict_update (attributes_file self) attrs,
                       meta_plugins := meta\<rparr>"
    obtain r self3 where md: "mapped_data self2 = (r, self3)"
      by (cases "mapped_data self2")
    from assms False Inr triple md have rest:
      "(case r of Inl e \<Rightarrow> (Inl e, self3)
         | Inr d \<Rightarrow> (case nd_setitem d args v of
                       Inl e \<Rightarrow> (Inl e, self3)
                     | Inr d' \<Rightarrow> (Inr (), self3\<lparr>data_memmap := Some d', data_file := Some d'\<rparr>)))
       = (Inr u, self')"
      by (simp add: setitem_def Let_def self2_def)
    then obtain d where r: "r = Inr d"
      by (cases r) simp_all
    with rest obtain d' where w: "nd_setitem d args v = Inr d'"
      by (cases "nd_setitem d args v") simp_all
    from rest r w have "self' = self3\<lparr>data_memmap := Some d', data_file := Some d'\<rparr>"
      by simp
    with that [OF False] Inr triple md r w show ?thesis
      by (simp add: self2_def)
  qed
qed

lemma setitem_sidecars:
  assumes "setitem plugins self args value = (Inr u, self')"
  shows "sidecars_after_write plugins value self self'"
proof -
  from assms obtain v attrs meta d self3 d' where
    pw: "prepare_write plugins value = Inr (v, attrs, meta)" and
    md: "mapped_data (self\<lparr>attributes_file := dict_update (attributes_file self) attrs,
                       meta_plugins := meta\<rparr>) = (Inr d, self3)" and
    final: "self' = self3\<lparr>data_memmap := Some d', data_file := Some d'\<rparr>"
    by (rule setitem_Inr)
  note parts = prepare_write_sidecars [OF pw]
  from mapped_data_frame [OF md] final have
    "meta_plugins self' = meta" "attributes_file self' = dict_update (attributes_file self) attrs"
    by simp_all
  with parts show ?thesis
    by (intro sidecars_after_writeI) simp_all
qed

lemma reset_data_Inr:
  assumes "reset_data plugins self value = (Inr u, self')"
  obtains v attrs meta a where
    "prepare_write plugins value = Inr (v, attrs, meta)"
    "asarray v = Inr a"
    "self' = self\<lparr>data_file := Some a, saves := Suc (saves self),
                  attributes_file := dict_update (attributes_file self) attrs,
                  meta_plugins := meta, data_memmap := Some a\<rparr>"
proof (cases "prepare_write plugins value")
  case (Inl e)
  with assms show ?thesis by (simp add: reset_data_def)
next
  case (Inr triple)
  obtain v attrs meta where triple: "triple = (v, attrs, meta)"
    by (cases triple)
  show ?thesis
  proof (cases "asarray v")
    case (Inl e)
    with assms Inr triple show ?thesis by (simp add: reset_data_def np_save_def)
  next
    case a: (Inr a)
    with assms Inr triple have
      "self' = self\<lparr>data_file := Some a, saves := Suc (saves self),
                  attributes_file := dict_update (attributes_file self) attrs,
                  meta_plugins := meta, data_memmap := Some a\<rparr>"
      by (simp add: reset_data_def np_save_def reload_data_def Let_def)
    with that Inr triple a show ?thesis
      by simp
  qed
qed

lemma reset_data_sidecars:
  assumes "reset_data plugins self value = (Inr u, self')"
  shows "sidecars_after_write plugins value self self'"
proof -
  from assms obtain v attrs meta a where
    pw: "prepare_write plugins value = Inr (v, attrs, meta)" and
    final: "self' = self\<lparr>data_file := Some a, saves := Suc (saves self),
                  attributes_file := dict_update (attributes_file self) attrs,
                  meta_plugins := meta, data_memmap := Some a\<rparr>"
    by (rule reset_data_Inr)
  note parts = prepare_write_sidecars [OF pw]
  from final have
    "meta_plugins self' = meta" "attributes_file self' = dict_update (attributes_file self) attrs"
    by simp_all
  with parts show ?thesis
    by (intro sidecars_after_writeI) simp_all
qed

subsection \<open>C10: what a write leaves in the sidecars\<close>

text \<open>
  C10. A successful write, indexed (\<^verbatim>\<open>__setitem__\<close>) or of the whole payload
  (\<^verbatim>\<open>_reset_data\<close>), replaces the mapping \<^verbatim>\<open>meta["plugins"]\<close> by the records of the
  registered plugins that reported \<^verbatim>\<open>required\<close> on this write: its keys are exactly their
  identifiers, and a record stored by an earlier write under another identifier is gone.
  The attributes the plugins contributed are merged into the attribute file, whose existing
  keys all remain.
\<close>

theorem write_replaces_plugin_metadata:
  "(setitem plugins self args value = (Inr (), self') \<longrightarrow>
      sidecars_after_write plugins value self self') \<and>
   (reset_data plugins self value = (Inr (), self') \<longrightarrow>
      sidecars_after_write plugins value self self')"
  using setitem_sidecars reset_data_sidecars by blast

lemmas dataset_eval_defs = setitem_def reset_data_def np_save_def reload_data_def prepare_write_def
  mapped_data_cases nd_setitem_def nd_getitem_def broadcast_to_def isinstance_number_tuple_str_def
  dict_update_def Let_def

lemma setitem_example:
  "setitem [units, remarks] ds_old (Indices [0, 1]) (PNumber 7) = (Inr (), ds_new)"
  by (simp add: dataset_eval_defs units_def remarks_def ds_old_def ds_a_def ds_new_def)

lemma reset_data_example:
  "reset_data [units] ds_old (PArray \<lparr>shape = [1, 3], elems = [Num 1, Num 2, Num 3]\<rparr>) =
     (Inr (), ds_reset)"
  by (simp add: dataset_eval_defs units_def ds_old_def ds_a_def ds_reset_def)

text \<open>
  C10 on the dataset \<^verbatim>\<open>/a\<close>: an indexed write with a required and an optional plugin,
  and a rewrite with the required plugin alone; the earlier record \<^verbatim>\<open>legacy\<close> is removed
  and the attribute \<^verbatim>\<open>owner\<close> is kept.
\<close>

theorem write_replaces_plugin_metadata_witness:
  "setitem [units, remarks] ds_old (Indices [0, 1]) (PNumber 7) = (Inr (), ds_new) \<and>
   sidecars_after_write [units, remarks] (PNumber 7) ds_old ds_new \<and>
   reset_data [units] ds_old (PArray \<lparr>shape = [1, 3], elems = [Num 1, Num 2, Num 3]\<rparr>) =
     (Inr (), ds_reset) \<and>
   sidecars_after_write [units] (PArray \<lparr>shape = [1, 3], elems = [Num 1, Num 2, Num 3]\<rparr>)
     ds_old ds_reset \<and>
   map_of (meta_plugins ds_old) ''legacy'' = Some \<lparr>required = True, details = []\<rparr> \<and>
   map_of (meta_plugins ds_new) ''legacy'' = None \<and>
   map_of (meta_plugins ds_new) ''notes'' = None \<and>
   map_of (meta_plugins ds_new) ''units'' =
     Some \<lparr>required = True, details = [(''unit'', PStr ''mV'')]\<rparr> \<and>
   map_of (attributes_file ds_new) ''owner'' = Some (PStr ''lab'')"
  using write_replaces_plugin_metadata
      [of "[units, remarks]" ds_old "Indices [0, 1]" "PNumber 7" ds_new]
    write_replaces_plugin_metadata
      [of "[units]" ds_old FullSlice "PArray \<lparr>shape = [1, 3], elems = [Num 1, Num 2, Num 3]\<rparr>"
          ds_reset]
    setitem_example reset_data_example
  by (simp add: ds_new_def ds_old_def)

subsection \<open>C9: the plugin check of a read\<close>

lemma locate_error: "locate sh idx = Inl e \<Longrightarrow> e = IndexError"
  by (induction sh idx rule: locate.induct) (auto simp: Let_def split: if_splits sum.splits)

lemma nd_getitem_error: "nd_getitem d args = Inl e \<Longrightarrow> e = IndexError"
  by (auto simp: nd_getitem_def split: selector.splits if_splits sum.splits dest: locate_error)

lemma mapped_data_error:
  "mapped_data self = (Inl e, self1) \<Longrightarrow> e = FileNotFoundError (data_filename self)"
  by (auto simp: mapped_data_cases split: option.splits)

lemma first_missing_None:
  "first_missing enabled recorded = None \<longleftrightarrow> set recorded \<subseteq> set enabled"
  by (auto simp: first_missing_def find_None_iff)

lemma first_missing_Some:
  "first_missing enabled recorded = Some p \<Longrightarrow> p \<in> set recorded \<and> p \<notin> set enabled"
  by (auto simp: first_missing_def find_Some_iff)

lemma getitem_selected:
  assumes "mapped_data self = (Inr d, self1)"
    and "(if length (shape d) = 0 then Inr d else nd_getitem d args) = Inr values"
  shows "getitem plugins self args =
     (case first_missing (map IDENTIFIER plugins) (map fst (meta_plugins self)) of
        Some p \<Rightarrow> (Inl (PluginNotEnabled p (name self)), self1)
      | None \<Rightarrow>
          (Inr (prepare_read_loop plugins (PArray values) (attributes_file self)), self1))"
  using assms
  by (auto simp: getitem_def Let_def mapped_data_frame [OF assms(1)] split: option.splits)

lemma getitem_PluginNotEnabled:
  assumes "fst (getitem plugins self args) = Inl (PluginNotEnabled p n)"
  shows "p \<in> fst ` set (meta_plugins self) \<and> p \<notin> IDENTIFIER ` set plugins \<and> n = name self"
proof -
  obtain r self1 where md: "mapped_data self = (r, self1)"
    by (cases "mapped_data self")
  show ?thesis
  proof (cases r)
    case (Inl e)
    with md assms mapped_data_error [of self e self1] show ?thesis
      by (simp add: getitem_def)
  next
    case (Inr d)
    show ?thesis
    proof (cases "if length (shape d) = 0 then Inr d else nd_getitem d args")
      case (Inl e)
      then have "e = IndexError"
        by (auto split: if_splits dest: nd_getitem_error)
      with Inl Inr md assms show ?thesis
        by (simp add: getitem_def)
    next
      case sel: (Inr vals)
      from md Inr have md': "mapped_data self = (Inr d, self1)" by simp
      from assms getitem_selected [OF md' sel, of plugins]
      have "first_missing (map IDENTIFIER plugins) (map fst (meta_plugins self)) = Some p \<and>
            n = name self"
        by (auto split: option.splits)
      then show ?thesis
        using first_missing_Some by fastforce
    qed
  qed
qed

lemma getitem_missing_raises:
  assumes "fst (mapped_data self) = Inr d"
    and "(if length (shape d) = 0 then Inr d else nd_getitem d args) = Inr values"
    and "\<exists>k \<in> fst ` set (meta_plugins self). k \<notin> IDENTIFIER ` set plugins"
  shows "\<exists>p. fst (getitem plugins self args) = Inl (PluginNotEnabled p (name self))"
proof -
  from assms(1) obtain self1 where md: "mapped_data self = (Inr d, self1)"
    by (cases "mapped_data self") simp
  from assms(3) have
    "first_missing (map IDENTIFIER plugins) (map fst (meta_plugins self)) \<noteq> None"
    by (auto simp: first_missing_None)
  then obtain p where
    "first_missing (map IDENTIFIER plugins) (map fst (meta_plugins self)) = Some p"
    by auto
  with getitem_selected [OF md assms(2), of plugins] show ?thesis
    by simp
qed

lemma required_records_keys:
  "k \<in> fst ` set (required_records plugins value) \<longleftrightarrow>
   (\<exists>a m. (k, a, m) \<in> set (contributions plugins value) \<and> required m)"
proof
  assume "k \<in> fst ` set (required_records plugins value)"
  then obtain m where "(k, m) \<in> set (required_records plugins value)"
    by auto
  then obtain c where c: "c \<in> set (contributions plugins value)"
      "required (snd (snd c))" "(k, m) = (fst c, snd (snd c))"
    by (auto simp: required_records_def split_def)
  then have "(k, fst (snd c), m) \<in> set (contributions plugins value) \<and> required m"
    by simp
  then show "\<exists>a m. (k, a, m) \<in> set (contributions plugins value) \<and> required m"
    by blast
next
  assume "\<exists>a m. (k, a, m) \<in> set (contributions plugins value) \<and> required m"
  then obtain a m where "(k, a, m) \<in> set (contributions plugins value)" "required m"
    by blast
  then have "(k, m) \<in> set (required_records plugins value)"
    by (force simp: required_records_def split_def)
  then show "k \<in> fst ` set (required_records plugins value)"
    by force
qed

lemma persisted_identifiers:
  assumes "prepare_write plugins value = Inr (v, attrs, meta)"
  shows "k \<in> fst ` set meta \<longleftrightarrow>
         (\<exists>a m. (k, a, m) \<in> set (contributions plugins value) \<and> required m)"
proof -
  from prepare_write_sidecars [OF assms]
  have "fst ` set meta = fst ` set (required_records plugins value)"
    by (simp add: keys_dict_update)
  then show ?thesis
    by (simp add: required_records_keys)
qed

lemma later_read_accepts:
  assumes "setitem plugins self args value = (Inr u, self')"
    and "\<forall>(k, a, m) \<in> set (contributions plugins value). required m \<longrightarrow> k \<in> IDENTIFIER ` set later"
  shows "fst (getitem later self' args') \<noteq> Inl (PluginNotEnabled p n)"
proof
  assume "fst (getitem later self' args') = Inl (PluginNotEnabled p n)"
  from getitem_PluginNotEnabled [OF this]
  have p: "p \<in> fst ` set (meta_plugins self')" "p \<notin> IDENTIFIER ` set later"
    by simp_all
  have "sidecars_after_write plugins value self self'"
    using assms(1) by (rule setitem_sidecars)
  then have "fst ` set (meta_plugins self') = fst ` set (required_records plugins value)"
    unfolding sidecars_after_write_def by (elim conjE)
  with p(1) have "p \<in> fst ` set (required_records plugins value)"
    by simp
  then obtain a m where c: "(p, a, m) \<in> set (contributions plugins value)" and "required m"
    unfolding required_records_keys by (elim exE conjE)
  from assms(2) c have "required m \<longrightarrow> p \<in> IDENTIFIER ` set later"
    by (auto dest: bspec)
  with \<open>required m\<close> p(2) show False
    by simp
qed

text \<open>
  C9. A read that raises the plugin exception names a plugin identifier that is recorded in
  \<^verbatim>\<open>meta["plugins"]\<close> and not registered, and the dataset. When the payload can be mapped
  and the selector applies to it, the read raises that exception if and only if some
  recorded identifier is not registered. A write records an identifier exactly when a
  plugin carrying it reported \<^verbatim>\<open>required\<close>, so after a successful write a read under any
  registry that holds the plugins which reported \<^verbatim>\<open>required\<close> does not raise the plugin
  exception, whichever other plugins it lacks.
\<close>

theorem getitem_plugin_check:
  "(\<forall>p n. fst (getitem plugins self args) = Inl (PluginNotEnabled p n) \<longrightarrow>
       p \<in> fst ` set (meta_plugins self) \<and> p \<notin> IDENTIFIER ` set plugins \<and> n = name self) \<and>
   (\<forall>d values. fst (mapped_data self) = Inr d \<and>
       (if length (shape d) = 0 then Inr d else nd_getitem d args) = Inr values \<longrightarrow>
       ((\<exists>p. fst (getitem plugins self args) = Inl (PluginNotEnabled p (name self))) \<longleftrightarrow>
        (\<exists>k \<in> fst ` set (meta_plugins self). k \<notin> IDENTIFIER ` set plugins))) \<and>
   (\<forall>v attrs meta k. prepare_write plugins value = Inr (v, attrs, meta) \<longrightarrow>
       (k \<in> fst ` set meta \<longleftrightarrow>
        (\<exists>a m. (k, a, m) \<in> set (contributions plugins value) \<and> required m))) \<and>
   (\<forall>self' later args' p n. setitem plugins self args value = (Inr (), self') \<and>
       (\<forall>(k, a, m) \<in> set (contributions plugins value).
           required m \<longrightarrow> k \<in> IDENTIFIER ` set later) \<longrightarrow>
       fst (getitem later self' args') \<noteq> Inl (PluginNotEnabled p n))"
proof -
  have named: "\<forall>p n. fst (getitem plugins self args) = Inl (PluginNotEnabled p n) \<longrightarrow>
       p \<in> fst ` set (meta_plugins self) \<and> p \<notin> IDENTIFIER ` set plugins \<and> n = name self"
    using getitem_PluginNotEnabled by (intro allI impI)
  have raised: "\<forall>d values. fst (mapped_data self) = Inr d \<and>
       (if length (shape d) = 0 then Inr d else nd_getitem d args) = Inr values \<longrightarrow>
       ((\<exists>p. fst (getitem plugins self args) = Inl (PluginNotEnabled p (name self))) \<longleftrightarrow>
        (\<exists>k \<in> fst ` set (meta_plugins self). k \<notin> IDENTIFIER ` set plugins))"
  proof (intro allI impI, elim conjE)
    fix d vals
    assume md: "fst (mapped_data self) = Inr d"
      and sel: "(if length (shape d) = 0 then Inr d else nd_getitem d args) = Inr vals"
    show "(\<exists>p. fst (getitem plugins self args) = Inl (PluginNotEnabled p (name self))) \<longleftrightarrow>
        (\<exists>k \<in> fst ` set (meta_plugins self). k \<notin> IDENTIFIER ` set plugins)"
    proof
      assume "\<exists>p. fst (getitem plugins self args) = Inl (PluginNotEnabled p (name self))"
      then obtain p where "fst (getitem plugins self args) = Inl (PluginNotEnabled p (name self))"
        by (elim exE)
      from getitem_PluginNotEnabled [OF this]
      show "\<exists>k \<in> fst ` set (meta_plugins self). k \<notin> IDENTIFIER ` set plugins"
        by (intro bexI [of _ p]) simp_all
    next
      assume "\<exists>k \<in> fst ` set (meta_plugins self). k \<notin> IDENTIFIER ` set plugins"
      with md sel show "\<exists>p. fst (getitem plugins self args) = Inl (PluginNotEnabled p (name self))"
        by (rule getitem_missing_raises)
    qed
  qed
  have persisted: "\<forall>v attrs meta k. prepare_write plugins value = Inr (v, attrs, meta) \<longrightarrow>
       (k \<in> fst ` set meta \<longleftrightarrow>
        (\<exists>a m. (k, a, m) \<in> set (contributions plugins value) \<and> required m))"
    using persisted_identifiers by (intro allI impI)
  have later: "\<forall>self' later args' p n. setitem plugins self args value = (Inr (), self') \<and>
       (\<forall>(k, a, m) \<in> set (contributions plugins value).
           required m \<longrightarrow> k \<in> IDENTIFIER ` set later) \<longrightarrow>
       fst (getitem later self' args') \<noteq> Inl (PluginNotEnabled p n)"
  proof (intro allI impI, elim conjE)
    fix self' and later :: "plugin list" and args' p n
    assume "setitem plugins self args value = (Inr (), self')"
      and "\<forall>(k, a, m) \<in> set (contributions plugins value).
           required m \<longrightarrow> k \<in> IDENTIFIER ` set later"
    then show "fst (getitem later self' args') \<noteq> Inl (PluginNotEnabled p n)"
      by (rule later_read_accepts)
  qed
  show ?thesis
    by (rule conjI [OF named conjI [OF raised conjI [OF persisted later]]])
qed

lemma getitem_example_missing:
  "fst (getitem [] ds_new (Indices [0, 1])) = Inl (PluginNotEnabled ''units'' ''/a'')"
  by (simp add: getitem_def mapped_data_cases nd_getitem_def first_missing_def Let_def
        ds_new_def ds_a_def name_def relative_path_def path_join_def)

lemma getitem_example_present:
  "fst (getitem [units] ds_new (Indices [0, 1])) = Inr (PArray \<lparr>shape = [], elems = [Num 7]\<rparr>)"
  by (simp add: getitem_def mapped_data_cases nd_getitem_def first_missing_def Let_def
        prepare_read_loop_def ds_new_def ds_a_def units_def)

text \<open>
  C9 on the dataset \<^verbatim>\<open>/a\<close> written with a required and an optional plugin: read with no
  plugin registered, and with the required plugin alone.
\<close>

theorem getitem_plugin_check_witness:
  "fst (getitem [] ds_new (Indices [0, 1])) = Inl (PluginNotEnabled ''units'' ''/a'') \<and>
   ''units'' \<in> fst ` set (meta_plugins ds_new) \<and>
   ''units'' \<notin> IDENTIFIER ` set ([] :: plugin list) \<and>
   name ds_new = ''/a'' \<and>
   setitem [units, remarks] ds_old (Indices [0, 1]) (PNumber 7) = (Inr (), ds_new) \<and>
   ''notes'' \<notin> fst ` set (meta_plugins ds_new) \<and>
   fst (getitem [units] ds_new FullSlice) \<noteq> Inl (PluginNotEnabled ''notes'' ''/a'') \<and>
   fst (getitem [units] ds_new (Indices [0, 1])) =
     Inr (PArray \<lparr>shape = [], elems = [Num 7]\<rparr>)"
proof -
  note on_read = getitem_plugin_check [of "[]" ds_new "Indices [0, 1]" "PNumber 0"]
  note on_write = getitem_plugin_check [of "[units, remarks]" ds_old "Indices [0, 1]" "PNumber 7"]
  have named:
    "''units'' \<in> fst ` set (meta_plugins ds_new) \<and>
     ''units'' \<notin> IDENTIFIER ` set ([] :: plugin list) \<and> ''/a'' = name ds_new"
    by (rule on_read [THEN conjunct1, rule_format, OF getitem_example_missing])
  have required_present:
    "\<forall>(k, a, m) \<in> set (contributions [units, remarks] (PNumber 7)).
        required m \<longrightarrow> k \<in> IDENTIFIER ` set [units]"
    by (simp add: units_def remarks_def)
  have accepted: "fst (getitem [units] ds_new FullSlice) \<noteq> Inl (PluginNotEnabled ''notes'' ''/a'')"
    by (rule on_write [THEN conjunct2, THEN conjunct2, THEN conjunct2, rule_format,
          OF conjI [OF setitem_example required_present]])
  have absent: "''notes'' \<notin> fst ` set (meta_plugins ds_new)"
    by (simp add: ds_new_def)
  from named have n1: "''units'' \<in> fst ` set (meta_plugins ds_new)"
    and n2: "''units'' \<notin> IDENTIFIER ` set ([] :: plugin list)"
    and n3: "name ds_new = ''/a''"
    by simp_all
  show ?thesis
    by (intro conjI getitem_example_missing n1 n2 n3 setitem_example absent accepted
          getitem_example_present)
qed

subsection \<open>C7: scalar datasets, length and iteration\<close>

lemma mapped_data_idem:
  "mapped_data self = (Inr d, self1) \<Longrightarrow> mapped_data self1 = (Inr d, self1)"
  by (auto simp: mapped_data_cases split: option.splits)

lemma getitem_state:
  "getitem plugins self args = (r, self1) \<Longrightarrow> snd (mapped_data self) = self1"
  by (auto simp: getitem_def Let_def split: prod.splits sum.splits option.splits)

lemma getitem_idem:
  assumes "mapped_data self = (Inr d, self1)"
  shows "getitem plugins self1 args = getitem plugins self args"
  using mapped_data_idem [OF assms] mapped_data_frame [OF assms] assms
  by (simp add: getitem_def Let_def)

lemma getitem_loaded:
  assumes "getitem plugins self args = (Inr v, self1)"
  obtains d where "mapped_data self = (Inr d, self1)"
proof -
  obtain r s where md: "mapped_data self = (r, s)"
    by (cases "mapped_data self")
  with assms getitem_state [OF assms] have "s = self1"
    by simp
  moreover from assms md obtain d where "r = Inr d"
    by (cases r) (simp_all add: getitem_def)
  ultimately show ?thesis
    using that md by simp
qed

lemma shape_property_loaded:
  assumes "shape_property plugins self = (Inr sh, self1)"
  obtains d where "mapped_data self = (Inr d, self1)"
proof -
  obtain r s where g: "getitem plugins self FullSlice = (r, s)"
    by (cases "getitem plugins self FullSlice")
  with assms obtain v where "r = Inr v" and "s = self1"
    by (cases r) (simp_all add: shape_property_def)
  with g have "getitem plugins self FullSlice = (Inr v, self1)"
    by simp
  then show ?thesis
    by (rule getitem_loaded) (rule that)
qed

lemma shape_property_idem:
  assumes "shape_property plugins self = (Inr sh, self1)"
  shows "shape_property plugins self1 = (Inr sh, self1)"
proof -
  from assms obtain d where "mapped_data self = (Inr d, self1)"
    by (rule shape_property_loaded)
  then have "getitem plugins self1 FullSlice = getitem plugins self FullSlice"
    by (rule getitem_idem)
  with assms show ?thesis
    by (simp add: shape_property_def)
qed

lemma getitem_scalar:
  assumes "fst (mapped_data self) = Inr d" and "shape d = []"
  shows "getitem plugins self args = getitem plugins self args'"
proof -
  from assms(1) obtain self1 where "mapped_data self = (Inr d, self1)"
    by (cases "mapped_data self") simp
  with assms(2) show ?thesis
    by (simp add: getitem_def)
qed

lemma getitem_scalar_value:
  assumes "fst (mapped_data self) = Inr d" and "shape d = []"
    and "fst ` set (meta_plugins self) \<subseteq> IDENTIFIER ` set plugins"
  shows "fst (getitem plugins self args) =
           Inr (prepare_read_loop plugins (PArray d) (attributes_file self))"
proof -
  from assms(1) obtain self1 where md: "mapped_data self = (Inr d, self1)"
    by (cases "mapped_data self") simp
  from assms(2) have sel: "(if length (shape d) = 0 then Inr d else nd_getitem d args) = Inr d"
    by simp
  from assms(3) have "first_missing (map IDENTIFIER plugins) (map fst (meta_plugins self)) = None"
    by (simp add: first_missing_None)
  with getitem_selected [OF md sel, of plugins] show ?thesis
    by simp
qed

lemma len_dataset_scalar:
  assumes "shape_property plugins self = (Inr [], self1)"
  shows "len_dataset plugins self = (Inl TypeError_len_of_scalar, self1)"
  using assms by (simp add: len_dataset_def)

lemma iter_dataset_scalar:
  assumes "shape_property plugins self = (Inr [], self1)"
  shows "iter_dataset plugins self = (([], Some TypeError_iterate_scalar), self1)"
  using assms by (simp add: iter_dataset_def)

lemma len_dataset_axis:
  assumes "shape_property plugins self = (Inr (n # sh), self1)"
  shows "len_dataset plugins self = (Inr n, self1)"
  using assms shape_property_idem [OF assms] by (simp add: len_dataset_def)

lemma iter_dataset_axis:
  assumes "shape_property plugins self = (Inr (n # sh), self1)"
  shows "iter_dataset plugins self = iter_reads plugins self1 [0..<n]"
  using assms shape_property_idem [OF assms] by (simp add: iter_dataset_def)

lemma iter_reads_all:
  assumes "mapped_data self1 = (Inr d, self1)"
    and "\<forall>i \<in> set idx. \<not> isl (fst (getitem plugins self1 (Indices [int i])))"
  shows "iter_reads plugins self1 idx =
           ((map (\<lambda>i. projr (fst (getitem plugins self1 (Indices [int i])))) idx, None), self1)"
  using assms(2)
proof (induction idx)
  case Nil
  show ?case by simp
next
  case (Cons i idx)
  obtain r s where g: "getitem plugins self1 (Indices [int i]) = (r, s)"
    by (cases "getitem plugins self1 (Indices [int i])")
  from getitem_state [OF g] assms(1) have s: "s = self1"
    by simp
  from Cons.prems g obtain v where r: "r = Inr v"
    by (cases r) simp_all
  from Cons.prems have "\<forall>i \<in> set idx. \<not> isl (fst (getitem plugins self1 (Indices [int i])))"
    by simp
  from Cons.IH [OF this] g s r show ?case
    by simp
qed

lemma shape_property_stored:
  assumes "fst (mapped_data self) = Inr d" and "meta_plugins self = []"
  shows "fst (shape_property [] self) = Inr (shape d)"
proof -
  from assms(1) obtain self1 where md: "mapped_data self = (Inr d, self1)"
    by (cases "mapped_data self") simp
  from md mapped_data_frame [OF md] assms(2) show ?thesis
    by (simp add: shape_property_def getitem_def nd_getitem_def first_missing_def
          prepare_read_loop_def shape_attr_def Let_def)
qed

text \<open>
  C7. When the stored array is zero-dimensional, \<^verbatim>\<open>dataset[selector]\<close> does the same for
  every selector, and returns the scalar (passed through the read hooks) when every recorded
  plugin is registered. When the property \<^verbatim>\<open>shape\<close> is empty, \<^verbatim>\<open>len\<close> raises its
  \<^verbatim>\<open>TypeError\<close> and iteration raises its \<^verbatim>\<open>TypeError\<close> before yielding anything. When
  \<^verbatim>\<open>shape\<close> is \<open>n # sh\<close>, \<^verbatim>\<open>len\<close> returns \<open>n\<close> and iteration performs the reads
  \<^verbatim>\<open>dataset[0]\<close>, ..., \<^verbatim>\<open>dataset[n - 1]\<close> in order, each a read of its own, and yields
  their \<open>n\<close> values when none of them raises. With no plugin registered or recorded, the
  property \<^verbatim>\<open>shape\<close> is the shape of the stored array.
\<close>

theorem scalar_and_first_axis:
  "(\<forall>d. fst (mapped_data self) = Inr d \<and> shape d = [] \<longrightarrow>
       (\<forall>args'. getitem plugins self args = getitem plugins self args') \<and>
       (fst ` set (meta_plugins self) \<subseteq> IDENTIFIER ` set plugins \<longrightarrow>
          fst (getitem plugins self args) =
            Inr (prepare_read_loop plugins (PArray d) (attributes_file self)))) \<and>
   (\<forall>self1. shape_property plugins self = (Inr [], self1) \<longrightarrow>
       len_dataset plugins self = (Inl TypeError_len_of_scalar, self1) \<and>
       iter_dataset plugins self = (([], Some TypeError_iterate_scalar), self1)) \<and>
   (\<forall>n sh self1. shape_property plugins self = (Inr (n # sh), self1) \<longrightarrow>
       len_dataset plugins self = (Inr n, self1) \<and>
       iter_dataset plugins self = iter_reads plugins self1 [0..<n] \<and>
       ((\<forall>i \<in> set [0..<n]. \<not> isl (fst (getitem plugins self1 (Indices [int i])))) \<longrightarrow>
          iter_dataset plugins self =
            ((map (\<lambda>i. projr (fst (getitem plugins self1 (Indices [int i])))) [0..<n], None),
             self1))) \<and>
   (\<forall>d. fst (mapped_data self) = Inr d \<and> meta_plugins self = [] \<longrightarrow>
       fst (shape_property [] self) = Inr (shape d))"
proof -
  have scalar: "\<forall>d. fst (mapped_data self) = Inr d \<and> shape d = [] \<longrightarrow>
       (\<forall>args'. getitem plugins self args = getitem plugins self args') \<and>
       (fst ` set (meta_plugins self) \<subseteq> IDENTIFIER ` set plugins \<longrightarrow>
          fst (getitem plugins self args) =
            Inr (prepare_read_loop plugins (PArray d) (attributes_file self)))"
  proof (intro allI impI conjI; elim conjE)
    fix d args'
    assume "fst (mapped_data self) = Inr d" "shape d = []"
    then show "getitem plugins self args = getitem plugins self args'"
      by (rule getitem_scalar)
  next
    fix d
    assume "fst (mapped_data self) = Inr d" "shape d = []"
      "fst ` set (meta_plugins self) \<subseteq> IDENTIFIER ` set plugins"
    then show "fst (getitem plugins self args) =
            Inr (prepare_read_loop plugins (PArray d) (attributes_file self))"
      by (rule getitem_scalar_value)
  qed
  have rank0: "\<forall>self1. shape_property plugins self = (Inr [], self1) \<longrightarrow>
       len_dataset plugins self = (Inl TypeError_len_of_scalar, self1) \<and>
       iter_dataset plugins self = (([], Some TypeError_iterate_scalar), self1)"
    by (intro allI impI conjI len_dataset_scalar iter_dataset_scalar)
  have axis: "\<forall>n sh self1. shape_property plugins self = (Inr (n # sh), self1) \<longrightarrow>
       len_dataset plugins self = (Inr n, self1) \<and>
       iter_dataset plugins self = iter_reads plugins self1 [0..<n] \<and>
       ((\<forall>i \<in> set [0..<n]. \<not> isl (fst (getitem plugins self1 (Indices [int i])))) \<longrightarrow>
          iter_dataset plugins self =
            ((map (\<lambda>i. projr (fst (getitem plugins self1 (Indices [int i])))) [0..<n], None),
             self1))"
  proof (intro allI impI conjI)
    fix n sh self1
    assume sp: "shape_property plugins self = (Inr (n # sh), self1)"
    show "len_dataset plugins self = (Inr n, self1)"
      using sp by (rule len_dataset_axis)
    show it: "iter_dataset plugins self = iter_reads plugins self1 [0..<n]"
      using sp by (rule iter_dataset_axis)
    assume ok: "\<forall>i \<in> set [0..<n]. \<not> isl (fst (getitem plugins self1 (Indices [int i])))"
    from sp obtain d where "mapped_data self = (Inr d, self1)"
      by (rule shape_property_loaded)
    then have "mapped_data self1 = (Inr d, self1)"
      by (rule mapped_data_idem)
    from iter_reads_all [OF this ok] it
    show "iter_dataset plugins self =
            ((map (\<lambda>i. projr (fst (getitem plugins self1 (Indices [int i])))) [0..<n], None),
             self1)"
      by simp
  qed
  have stored: "\<forall>d. fst (mapped_data self) = Inr d \<and> meta_plugins self = [] \<longrightarrow>
       fst (shape_property [] self) = Inr (shape d)"
    by (intro allI impI, elim conjE) (rule shape_property_stored)
  show ?thesis
    by (rule conjI [OF scalar conjI [OF rank0 conjI [OF axis stored]]])
qed

lemmas read_eval_defs = shape_property_def getitem_def mapped_data_cases nd_getitem_def
  first_missing_def prepare_read_loop_def shape_attr_def Let_def

text \<open>C7 on the scalar dataset \<^verbatim>\<open>/s\<close> and on the two-by-two dataset \<^verbatim>\<open>/a\<close>.\<close>

theorem scalar_and_first_axis_witness:
  "getitem [] ds_scalar (Indices [3]) = getitem [] ds_scalar FullSlice \<and>
   fst (getitem [] ds_scalar (Indices [3])) = Inr (PArray \<lparr>shape = [], elems = [Num 5]\<rparr>) \<and>
   fst (len_dataset [] ds_scalar) = Inl TypeError_len_of_scalar \<and>
   fst (iter_dataset [] ds_scalar) = ([], Some TypeError_iterate_scalar) \<and>
   fst (shape_property [] ds_a) = Inr [2, 2] \<and>
   fst (len_dataset [] ds_a) = Inr 2 \<and>
   fst (iter_dataset [] ds_a) =
     ([PArray \<lparr>shape = [2], elems = [Num 1, Num 2]\<rparr>,
       PArray \<lparr>shape = [2], elems = [Num 3, Num 4]\<rparr>], None)"
proof -
  note scalar = scalar_and_first_axis
    [where self = ds_scalar and plugins = "[]" and args = "Indices [3]"]
  note matrix = scalar_and_first_axis
    [where self = ds_a and plugins = "[]" and args = "Indices [0]"]
  have stored: "fst (mapped_data ds_scalar) = Inr \<lparr>shape = [], elems = [Num 5]\<rparr> \<and>
      shape \<lparr>shape = [], elems = [Num 5]\<rparr> = []"
    by (simp add: mapped_data_cases ds_scalar_def ds_a_def)
  note ignored = scalar [THEN conjunct1, rule_format, OF stored]
  have w1: "getitem [] ds_scalar (Indices [3]) = getitem [] ds_scalar FullSlice"
    by (rule ignored [THEN conjunct1, rule_format])
  have "fst ` set (meta_plugins ds_scalar) \<subseteq> IDENTIFIER ` set ([] :: plugin list)"
    by (simp add: ds_scalar_def ds_a_def)
  from ignored [THEN conjunct2, rule_format, OF this]
  have w2: "fst (getitem [] ds_scalar (Indices [3])) = Inr (PArray \<lparr>shape = [], elems = [Num 5]\<rparr>)"
    by (simp add: prepare_read_loop_def)
  have sp0: "shape_property [] ds_scalar =
      (Inr [], ds_scalar\<lparr>data_memmap := Some \<lparr>shape = [], elems = [Num 5]\<rparr>\<rparr>)"
    by (simp add: read_eval_defs ds_scalar_def ds_a_def)
  note rank0 = scalar [THEN conjunct2, THEN conjunct1, rule_format, OF sp0]
  from rank0 have w3: "fst (len_dataset [] ds_scalar) = Inl TypeError_len_of_scalar"
    and w4: "fst (iter_dataset [] ds_scalar) = ([], Some TypeError_iterate_scalar)"
    by simp_all
  have sp2: "shape_property [] ds_a =
      (Inr [2, 2],
       ds_a\<lparr>data_memmap := Some \<lparr>shape = [2, 2], elems = [Num 1, Num 2, Num 3, Num 4]\<rparr>\<rparr>)"
    by (simp add: read_eval_defs ds_a_def)
  then have w5: "fst (shape_property [] ds_a) = Inr [2, 2]"
    by simp
  note axis = matrix [THEN conjunct2, THEN conjunct2, THEN conjunct1, rule_format, OF sp2]
  from axis have w6: "fst (len_dataset [] ds_a) = Inr 2"
    by simp
  have row0: "getitem [] (ds_a\<lparr>data_memmap := Some \<lparr>shape = [2, 2], elems = [Num 1, Num 2, Num 3, Num 4]\<rparr>\<rparr>)
        (Indices [0]) =
      (Inr (PArray \<lparr>shape = [2], elems = [Num 1, Num 2]\<rparr>),
       ds_a\<lparr>data_memmap := Some \<lparr>shape = [2, 2], elems = [Num 1, Num 2, Num 3, Num 4]\<rparr>\<rparr>)"
    by (simp add: read_eval_defs ds_a_def)
  have row1: "getitem [] (ds_a\<lparr>data_memmap := Some \<lparr>shape = [2, 2], elems = [Num 1, Num 2, Num 3, Num 4]\<rparr>\<rparr>)
        (Indices [1]) =
      (Inr (PArray \<lparr>shape = [2], elems = [Num 3, Num 4]\<rparr>),
       ds_a\<lparr>data_memmap := Some \<lparr>shape = [2, 2], elems = [Num 1, Num 2, Num 3, Num 4]\<rparr>\<rparr>)"
    by (simp add: read_eval_defs ds_a_def)
  have two: "[0..<2] = [0, Suc 0]"
    by (simp add: upt_rec)
  from axis have "iter_dataset [] ds_a =
      iter_reads [] (ds_a\<lparr>data_memmap := Some \<lparr>shape = [2, 2], elems = [Num 1, Num 2, Num 3, Num 4]\<rparr>\<rparr>)
        [0..<2]"
    by simp
  with row0 row1 have w7: "fst (iter_dataset [] ds_a) =
     ([PArray \<lparr>shape = [2], elems = [Num 1, Num 2]\<rparr>,
       PArray \<lparr>shape = [2], elems = [Num 3, Num 4]\<rparr>], None)"
    by (simp add: two)
  show ?thesis
    by (intro conjI w1 w2 w3 w4 w5 w6 w7)
qed

subsection \<open>C5: assigning the whole value\<close>

lemma value_setter_differs:
  assumes "mapped_data self = (Inr d, self1)" and "shape d \<noteq> shape a"
  shows "value_setter plugins self (PArray a) = reset_data plugins self1 (PArray a)"
  using assms by (simp add: value_setter_def shape_attr_def)

lemma value_setter_same:
  assumes "mapped_data self = (Inr d, self1)" and "shape d = shape a"
  shows "value_setter plugins self (PArray a) = setitem plugins self1 FullSlice (PArray a)"
  using assms by (simp add: value_setter_def shape_attr_def)

lemma reset_data_payload:
  assumes "reset_data plugins self value = (Inr u, self')"
  shows "\<exists>v attrs meta a'. prepare_write plugins value = Inr (v, attrs, meta) \<and>
           asarray v = Inr a' \<and> data_file self' = Some a' \<and> data_memmap self' = Some a' \<and>
           saves self' = Suc (saves self)"
proof -
  from assms obtain v attrs meta a' where
    "prepare_write plugins value = Inr (v, attrs, meta)" "asarray v = Inr a'"
    "self' = self\<lparr>data_file := Some a', saves := Suc (saves self),
                  attributes_file := dict_update (attributes_file self) attrs,
                  meta_plugins := meta, data_memmap := Some a'\<rparr>"
    by (rule reset_data_Inr)
  then show ?thesis
    by simp
qed

lemma reset_data_no_plugins:
  "reset_data [] self (PArray a) =
     (Inr (), self\<lparr>data_file := Some a, saves := Suc (saves self), meta_plugins := [],
                    data_memmap := Some a\<rparr>)"
  by (simp add: reset_data_def prepare_write_def isinstance_number_tuple_str_def np_save_def
        reload_data_def dict_update_def Let_def)

lemma nd_setitem_shape: "nd_setitem d sel v = Inr d' \<Longrightarrow> shape d' = shape d"
  by (auto simp: nd_setitem_def split: sum.splits prod.splits)

lemma setitem_saves: "saves (snd (setitem plugins self args value)) = saves self"
proof (cases "io_mode self = Some READ_ONLY")
  case True
  then show ?thesis by (simp add: setitem_def)
next
  case False
  show ?thesis
  proof (cases "prepare_write plugins value")
    case (Inl e)
    with False show ?thesis by (simp add: setitem_def)
  next
    case (Inr triple)
    obtain v attrs meta where triple: "triple = (v, attrs, meta)"
      by (cases triple)
    define self2 where "self2 = self\<lparr>attributes_file := dict_update (attributes_file self) attrs,
                       meta_plugins := meta\<rparr>"
    obtain r self3 where md: "mapped_data self2 = (r, self3)"
      by (cases "mapped_data self2")
    from mapped_data_frame [OF md] have s3: "saves self3 = saves self"
      by (simp add: self2_def)
    from False Inr triple md s3 show ?thesis
      by (simp add: setitem_def Let_def self2_def split: sum.splits)
  qed
qed

lemma setitem_payload_shape:
  assumes "setitem plugins self args value = (Inr u, self')" and "mapped_data self = (Inr d, self)"
  shows "\<exists>d'. data_file self' = Some d' \<and> data_memmap self' = Some d' \<and> shape d' = shape d"
proof -
  from assms(1) obtain v attrs meta d0 self3 d' where
    md: "mapped_data (self\<lparr>attributes_file := dict_update (attributes_file self) attrs,
                       meta_plugins := meta\<rparr>) = (Inr d0, self3)" and
    w: "nd_setitem d0 args v = Inr d'" and
    final: "self' = self3\<lparr>data_memmap := Some d', data_file := Some d'\<rparr>"
    by (rule setitem_Inr)
  from assms(2) md have "d0 = d"
    by (auto simp: mapped_data_cases split: option.splits)
  with nd_setitem_shape [OF w] final show ?thesis
    by simp
qed

lemma value_setter_scenario:
  "value_setter [] ds_a (PArray \<lparr>shape = [1, 3], elems = [Num 1, Num 2, Num 3]\<rparr>) =
     (Inr (),
      ds_a\<lparr>data_file := Some \<lparr>shape = [1, 3], elems = [Num 1, Num 2, Num 3]\<rparr>,
           saves := Suc (saves ds_a), meta_plugins := [],
           data_memmap := Some \<lparr>shape = [1, 3], elems = [Num 1, Num 2, Num 3]\<rparr>\<rparr>)"
proof -
  have md: "mapped_data ds_a =
      (Inr \<lparr>shape = [2, 2], elems = [Num 1, Num 2, Num 3, Num 4]\<rparr>,
       ds_a\<lparr>data_memmap := Some \<lparr>shape = [2, 2], elems = [Num 1, Num 2, Num 3, Num 4]\<rparr>\<rparr>)"
    by (simp add: mapped_data_cases ds_a_def)
  have "shape \<lparr>shape = [2, 2], elems = [Num 1, Num 2, Num 3, Num 4]\<rparr> \<noteq>
        shape \<lparr>shape = [1, 3], elems = [Num 1, Num 2, Num 3]\<rparr>"
    by simp
  from value_setter_differs [OF md this, of "[]"] show ?thesis
    by (simp add: reset_data_no_plugins)
qed

lemma scenario_reads:
  "fst (shape_property []
     (ds_a\<lparr>data_file := Some \<lparr>shape = [1, 3], elems = [Num 1, Num 2, Num 3]\<rparr>,
           saves := Suc (saves ds_a), meta_plugins := [],
           data_memmap := Some \<lparr>shape = [1, 3], elems = [Num 1, Num 2, Num 3]\<rparr>\<rparr>)) = Inr [1, 3] \<and>
   fst (getitem []
     (ds_a\<lparr>data_file := Some \<lparr>shape = [1, 3], elems = [Num 1, Num 2, Num 3]\<rparr>,
           saves := Suc (saves ds_a), meta_plugins := [],
           data_memmap := Some \<lparr>shape = [1, 3], elems = [Num 1, Num 2, Num 3]\<rparr>\<rparr>)
     (Indices [0, 1])) = Inr (PArray \<lparr>shape = [], elems = [Num 2]\<rparr>)"
  by (simp add: read_eval_defs)

text \<open>
  C5. Assigning an array to \<^verbatim>\<open>dataset.value\<close> compares its shape with the shape of the
  mapped array. When they differ the assignment is \<^verbatim>\<open>_reset_data\<close>: on success the
  payload file has been written anew (once more than before) with the array the write
  pipeline returns, and the handle maps that array; with no plugin registered the payload
  is the assigned array itself. When they are equal the assignment is the indexed write
  with the full slice: the payload file is not written anew, whatever the outcome, and on
  success payload and mapping hold an array of the old shape. In the scenario, the dataset
  created with \<^verbatim>\<open>[[1, 2], [3, 4]]\<close> and assigned \<^verbatim>\<open>[[1, 2, 3]]\<close> has its payload
  rewritten, then has shape \<^verbatim>\<open>(1, 3)\<close> and the value 2 at \<^verbatim>\<open>[0, 1]\<close>.
\<close>

theorem value_setter_rewrites_on_shape_change:
  "(\<forall>d self1. mapped_data self = (Inr d, self1) \<and> shape d \<noteq> shape a \<longrightarrow>
      value_setter plugins self (PArray a) = reset_data plugins self1 (PArray a) \<and>
      (\<forall>self'. value_setter plugins self (PArray a) = (Inr (), self') \<longrightarrow>
         (\<exists>v attrs meta a'. prepare_write plugins (PArray a) = Inr (v, attrs, meta) \<and>
            asarray v = Inr a' \<and> data_file self' = Some a' \<and> data_memmap self' = Some a' \<and>
            saves self' = Suc (saves self))) \<and>
      value_setter [] self (PArray a) =
        (Inr (), self1\<lparr>data_file := Some a, saves := Suc (saves self), meta_plugins := [],
                       data_memmap := Some a\<rparr>)) \<and>
   (\<forall>d self1. mapped_data self = (Inr d, self1) \<and> shape d = shape a \<longrightarrow>
      value_setter plugins self (PArray a) = setitem plugins self1 FullSlice (PArray a) \<and>
      saves (snd (value_setter plugins self (PArray a))) = saves self \<and>
      (\<forall>self'. value_setter plugins self (PArray a) = (Inr (), self') \<longrightarrow>
         (\<exists>d'. data_file self' = Some d' \<and> data_memmap self' = Some d' \<and>
               shape d' = shape d))) \<and>
   (case value_setter [] ds_a (PArray \<lparr>shape = [1, 3], elems = [Num 1, Num 2, Num 3]\<rparr>) of
      (Inl e, ds) \<Rightarrow> False
    | (Inr u, ds) \<Rightarrow>
        data_file ds = Some \<lparr>shape = [1, 3], elems = [Num 1, Num 2, Num 3]\<rparr> \<and>
        saves ds = Suc (saves ds_a) \<and>
        fst (shape_property [] ds) = Inr [1, 3] \<and>
        fst (getitem [] ds (Indices [0, 1])) = Inr (PArray \<lparr>shape = [], elems = [Num 2]\<rparr>))"
proof -
  have differs: "\<forall>d self1. mapped_data self = (Inr d, self1) \<and> shape d \<noteq> shape a \<longrightarrow>
      value_setter plugins self (PArray a) = reset_data plugins self1 (PArray a) \<and>
      (\<forall>self'. value_setter plugins self (PArray a) = (Inr (), self') \<longrightarrow>
         (\<exists>v attrs meta a'. prepare_write plugins (PArray a) = Inr (v, attrs, meta) \<and>
            asarray v = Inr a' \<and> data_file self' = Some a' \<and> data_memmap self' = Some a' \<and>
            saves self' = Suc (saves self))) \<and>
      value_setter [] self (PArray a) =
        (Inr (), self1\<lparr>data_file := Some a, saves := Suc (saves self), meta_plugins := [],
                       data_memmap := Some a\<rparr>)"
  proof (intro allI impI, elim conjE)
    fix d self1
    assume md: "mapped_data self = (Inr d, self1)" and ne: "shape d \<noteq> shape a"
    note frame = mapped_data_frame [OF md]
    have vs: "value_setter plugins self (PArray a) = reset_data plugins self1 (PArray a)"
      using md ne by (rule value_setter_differs)
    have payload: "\<forall>self'. value_setter plugins self (PArray a) = (Inr (), self') \<longrightarrow>
         (\<exists>v attrs meta a'. prepare_write plugins (PArray a) = Inr (v, attrs, meta) \<and>
            asarray v = Inr a' \<and> data_file self' = Some a' \<and> data_memmap self' = Some a' \<and>
            saves self' = Suc (saves self))"
    proof (intro allI impI)
      fix self'
      assume "value_setter plugins self (PArray a) = (Inr (), self')"
      with vs have "reset_data plugins self1 (PArray a) = (Inr (), self')"
        by simp
      from reset_data_payload [OF this] frame
      show "\<exists>v attrs meta a'. prepare_write plugins (PArray a) = Inr (v, attrs, meta) \<and>
            asarray v = Inr a' \<and> data_file self' = Some a' \<and> data_memmap self' = Some a' \<and>
            saves self' = Suc (saves self)"
        by simp
    qed
    have plain: "value_setter [] self (PArray a) =
        (Inr (), self1\<lparr>data_file := Some a, saves := Suc (saves self), meta_plugins := [],
                       data_memmap := Some a\<rparr>)"
      using value_setter_differs [OF md ne, of "[]"] frame
      by (simp add: reset_data_no_plugins)
    from vs payload plain
    show "value_setter plugins self (PArray a) = reset_data plugins self1 (PArray a) \<and>
      (\<forall>self'. value_setter plugins self (PArray a) = (Inr (), self') \<longrightarrow>
         (\<exists>v attrs meta a'. prepare_write plugins (PArray a) = Inr (v, attrs, meta) \<and>
            asarray v = Inr a' \<and> data_file self' = Some a' \<and> data_memmap self' = Some a' \<and>
            saves self' = Suc (saves self))) \<and>
      value_setter [] self (PArray a) =
        (Inr (), self1\<lparr>data_file := Some a, saves := Suc (saves self), meta_plugins := [],
                       data_memmap := Some a\<rparr>)"
      by (intro conjI)
  qed
  have same: "\<forall>d self1. mapped_data self = (Inr d, self1) \<and> shape d = shape a \<longrightarrow>
      value_setter plugins self (PArray a) = setitem plugins self1 FullSlice (PArray a) \<and>
      saves (snd (value_setter plugins self (PArray a))) = saves self \<and>
      (\<forall>self'. value_setter plugins self (PArray a) = (Inr (), self') \<longrightarrow>
         (\<exists>d'. data_file self' = Some d' \<and> data_memmap self' = Some d' \<and>
               shape d' = shape d))"
  proof (intro allI impI, elim conjE)
    fix d self1
    assume md: "mapped_data self = (Inr d, self1)" and eq: "shape d = shape a"
    note frame = mapped_data_frame [OF md]
    have vs: "value_setter plugins self (PArray a) = setitem plugins self1 FullSlice (PArray a)"
      using md eq by (rule value_setter_same)
    have kept: "saves (snd (value_setter plugins self (PArray a))) = saves self"
      using frame by (simp add: vs setitem_saves)
    have inplace: "\<forall>self'. value_setter plugins self (PArray a) = (Inr (), self') \<longrightarrow>
         (\<exists>d'. data_file self' = Some d' \<and> data_memmap self' = Some d' \<and>
               shape d' = shape d)"
    proof (intro allI impI)
      fix self'
      assume "value_setter plugins self (PArray a) = (Inr (), self')"
      with vs have "setitem plugins self1 FullSlice (PArray a) = (Inr (), self')"
        by simp
      then show "\<exists>d'. data_file self' = Some d' \<and> data_memmap self' = Some d' \<and>
               shape d' = shape d"
        using mapped_data_idem [OF md] by (rule setitem_payload_shape)
    qed
    from vs kept inplace
    show "value_setter plugins self (PArray a) = setitem plugins self1 FullSlice (PArray a) \<and>
      saves (snd (value_setter plugins self (PArray a))) = saves self \<and>
      (\<forall>self'. value_setter plugins self (PArray a) = (Inr (), self') \<longrightarrow>
         (\<exists>d'. data_file self' = Some d' \<and> data_memmap self' = Some d' \<and>
               shape d' = shape d))"
      by (intro conjI)
  qed
  have scenario:
    "case value_setter [] ds_a (PArray \<lparr>shape = [1, 3], elems = [Num 1, Num 2, Num 3]\<rparr>) of
      (Inl e, ds) \<Rightarrow> False
    | (Inr u, ds) \<Rightarrow>
        data_file ds = Some \<lparr>shape = [1, 3], elems = [Num 1, Num 2, Num 3]\<rparr> \<and>
        saves ds = Suc (saves ds_a) \<and>
        fst (shape_property [] ds) = Inr [1, 3] \<and>
        fst (getitem [] ds (Indices [0, 1])) = Inr (PArray \<lparr>shape = [], elems = [Num 2]\<rparr>)"
    by (subst value_setter_scenario) (use scenario_reads in simp)
  show ?thesis
    by (rule conjI [OF differs conjI [OF same scenario]])
qed

text \<open>
  C5 on the dataset \<^verbatim>\<open>/a\<close>: an assignment that changes the shape and one that keeps it.
\<close>

theorem value_setter_rewrites_on_shape_change_witness:
  "mapped_data ds_a =
     (Inr \<lparr>shape = [2, 2], elems = [Num 1, Num 2, Num 3, Num 4]\<rparr>,
      ds_a\<lparr>data_memmap := Some \<lparr>shape = [2, 2], elems = [Num 1, Num 2, Num 3, Num 4]\<rparr>\<rparr>) \<and>
   value_setter [] ds_a (PArray \<lparr>shape = [1, 3], elems = [Num 1, Num 2, Num 3]\<rparr>) =
     (Inr (),
      ds_a\<lparr>data_memmap := Some \<lparr>shape = [2, 2], elems = [Num 1, Num 2, Num 3, Num 4]\<rparr>,
           data_file := Some \<lparr>shape = [1, 3], elems = [Num 1, Num 2, Num 3]\<rparr>,
           saves := Suc (saves ds_a), meta_plugins := [],
           data_memmap := Some \<lparr>shape = [1, 3], elems = [Num 1, Num 2, Num 3]\<rparr>\<rparr>) \<and>
   value_setter [] ds_a (PArray \<lparr>shape = [2, 2], elems = [Num 5, Num 6, Num 7, Num 8]\<rparr>) =
     (Inr (),
      ds_a\<lparr>data_memmap := Some \<lparr>shape = [2, 2], elems = [Num 5, Num 6, Num 7, Num 8]\<rparr>,
           data_file := Some \<lparr>shape = [2, 2], elems = [Num 5, Num 6, Num 7, Num 8]\<rparr>\<rparr>) \<and>
   saves (snd (value_setter [] ds_a
      (PArray \<lparr>shape = [2, 2], elems = [Num 5, Num 6, Num 7, Num 8]\<rparr>))) = saves ds_a"
proof -
  have md: "mapped_data ds_a =
     (Inr \<lparr>shape = [2, 2], elems = [Num 1, Num 2, Num 3, Num 4]\<rparr>,
      ds_a\<lparr>data_memmap := Some \<lparr>shape = [2, 2], elems = [Num 1, Num 2, Num 3, Num 4]\<rparr>\<rparr>)"
    by (simp add: mapped_data_cases ds_a_def)
  have ne: "shape \<lparr>shape = [2, 2], elems = [Num 1, Num 2, Num 3, Num 4]\<rparr> \<noteq>
        shape \<lparr>shape = [1, 3], elems = [Num 1, Num 2, Num 3]\<rparr>"
    by simp
  have eq: "shape \<lparr>shape = [2, 2], elems = [Num 1, Num 2, Num 3, Num 4]\<rparr> =
        shape \<lparr>shape = [2, 2], elems = [Num 5, Num 6, Num 7, Num 8]\<rparr>"
    by simp
  note changed = value_setter_rewrites_on_shape_change
    [where self = ds_a and plugins = "[]"
       and a = "\<lparr>shape = [1, 3], elems = [Num 1, Num 2, Num 3]\<rparr>",
     THEN conjunct1, rule_format, OF conjI [OF md ne]]
  note unchanged = value_setter_rewrites_on_shape_change
    [where self = ds_a and plugins = "[]"
       and a = "\<lparr>shape = [2, 2], elems = [Num 5, Num 6, Num 7, Num 8]\<rparr>",
     THEN conjunct2, THEN conjunct1, rule_format, OF conjI [OF md eq]]
  note w1 = changed [THEN conjunct2, THEN conjunct2]
  have written:
    "setitem [] (ds_a\<lparr>data_memmap := Some \<lparr>shape = [2, 2], elems = [Num 1, Num 2, Num 3, Num 4]\<rparr>\<rparr>)
         FullSlice (PArray \<lparr>shape = [2, 2], elems = [Num 5, Num 6, Num 7, Num 8]\<rparr>) =
     (Inr (),
      ds_a\<lparr>data_memmap := Some \<lparr>shape = [2, 2], elems = [Num 5, Num 6, Num 7, Num 8]\<rparr>,
           data_file := Some \<lparr>shape = [2, 2], elems = [Num 5, Num 6, Num 7, Num 8]\<rparr>\<rparr>)"
    by (simp add: dataset_eval_defs ds_a_def upt_rec)
  have w2:
    "value_setter [] ds_a (PArray \<lparr>shape = [2, 2], elems = [Num 5, Num 6, Num 7, Num 8]\<rparr>) =
     (Inr (),
      ds_a\<lparr>data_memmap := Some \<lparr>shape = [2, 2], elems = [Num 5, Num 6, Num 7, Num 8]\<rparr>,
           data_file := Some \<lparr>shape = [2, 2], elems = [Num 5, Num 6, Num 7, Num 8]\<rparr>\<rparr>)"
    by (rule trans [OF unchanged [THEN conjunct1] written])
  note w3 = unchanged [THEN conjunct2, THEN conjunct1]
  show ?thesis
    by (intro conjI md w1 w2 w3)
qed

end
